theory Spec2Isabelle
  imports Complex_Main "HOL-Library.Word"
begin

unbundle bit_operations_syntax

section \<open>The reference-voltage channel and its autotuner (APP\_REFS.ino)\<close>

text \<open>
  A shallow embedding of class \<open>ReferenceChannel\<close>. Machine integers keep their width:
  \<open>uint8_t\<close>, \<open>uint16_t\<close>/\<open>int16_t\<close> and \<open>uint32_t\<close>/\<open>int32_t\<close> fields are words of
  8, 16 and 32 bits (\<open>+\<close> wraps; a signed field is read with \<open>sint\<close> and compared with
  \<open><s\<close>). The \<open>float\<close> fields are modelled as \<open>real\<close>: comparison is exact, rounding
  of \<open>+\<close>, \<open>*\<close> and \<open>/\<close> is not modelled. C arrays are lists, indexed with \<open>!\<close> and
  updated with \<open>[i := v]\<close>; in the steps where the source indexes its two tables
  (\<open>DAC_VOLT_3m\<close> to \<open>DAC_VOLT_6\<close>, and the commit step with its counter from 0 to
  \<open>OCTAVES\<close>) the index is inside the eleven entries.
  A member \<open>name_\<close> of the class is the field \<open>name_'\<close> of the record, since an
  Isabelle name cannot end in an underscore.
\<close>

subsection \<open>Constants\<close>

definition FREQ_MEASURE_TIMEOUT :: "32 word" where
  "FREQ_MEASURE_TIMEOUT = 512"

definition ERROR_TIMEOUT :: "32 word" where
  "ERROR_TIMEOUT = push_bit 4 FREQ_MEASURE_TIMEOUT"

definition MAX_NUM_PASSES :: "32 word" where
  "MAX_NUM_PASSES = 1500"

definition CONVERGE_PASSES :: "16 word" where
  "CONVERGE_PASSES = 5"

definition kHistoryDepth :: nat where
  "kHistoryDepth = 10"

text \<open>
  Modelled from the spec: \<open>OCTAVES\<close> and \<open>OC::DAC::kOctaveZero\<close> are declared in the DAC
  driver's header, outside APP\_REFS.ino. The spec gives \<open>OCTAVES = 10\<close> (11 points,
  \<open>-3 V\<close> to \<open>+7 V\<close>); the 0 V point is index 3 of the tables, as the comments of the
  target table say.
\<close>

definition OCTAVES :: nat where
  "OCTAVES = 10"

definition kOctaveZero :: nat where
  "kOctaveZero = 3"

text \<open>OC\_options.h: the line \<open>#define BUCHLA_SUPPORT\<close> is commented out.\<close>

definition BUCHLA_SUPPORT :: bool where
  "BUCHLA_SUPPORT = False"

text \<open>\<open>enum ReferenceSetting\<close>: the indices of \<open>values_\<close> that the channel reads.\<close>

definition REF_SETTING_OCTAVE :: nat where "REF_SETTING_OCTAVE = 0"
definition REF_SETTING_SEMI :: nat where "REF_SETTING_SEMI = 1"
definition REF_SETTING_RANGE :: nat where "REF_SETTING_RANGE = 2"
definition REF_SETTING_RATE :: nat where "REF_SETTING_RATE = 3"
definition REF_SETTING_VOLTAGE_SCALING :: nat where "REF_SETTING_VOLTAGE_SCALING = 10"

text \<open>\<open>enum AUTO_CALIBRATION_STEP\<close>; \<open>autotuner_step_\<close> is a \<open>uint8_t\<close>.\<close>

definition DAC_VOLT_0_ARM :: "8 word" where "DAC_VOLT_0_ARM = 0"
definition DAC_VOLT_0_BASELINE :: "8 word" where "DAC_VOLT_0_BASELINE = 1"
definition DAC_VOLT_3m :: "8 word" where "DAC_VOLT_3m = 2"
definition DAC_VOLT_2m :: "8 word" where "DAC_VOLT_2m = 3"
definition DAC_VOLT_1m :: "8 word" where "DAC_VOLT_1m = 4"
definition DAC_VOLT_0 :: "8 word" where "DAC_VOLT_0 = 5"
definition DAC_VOLT_1 :: "8 word" where "DAC_VOLT_1 = 6"
definition DAC_VOLT_2 :: "8 word" where "DAC_VOLT_2 = 7"
definition DAC_VOLT_3 :: "8 word" where "DAC_VOLT_3 = 8"
definition DAC_VOLT_4 :: "8 word" where "DAC_VOLT_4 = 9"
definition DAC_VOLT_5 :: "8 word" where "DAC_VOLT_5 = 10"
definition DAC_VOLT_6 :: "8 word" where "DAC_VOLT_6 = 11"
definition AUTO_CALIBRATION_STEP_LAST :: "8 word" where "AUTO_CALIBRATION_STEP_LAST = 12"

subsection \<open>The collaborators of the channel\<close>

text \<open>
  Modelled from the spec: the DAC driver (\<open>OC::DAC\<close>) is an external collaborator with
  four channels (\<open>DAC_CHANNEL_A\<close> to \<open>DAC_CHANNEL_D\<close>, numbered from 0). Per channel it
  holds the last raw code written by \<open>set\<close>, the learned ("auto") table written by
  \<open>update_auto_channel_calibration_data\<close>, and which of the two tables, default or
  auto, is the live one: \<open>set_default_channel_calibration_data\<close> and
  \<open>set_auto_channel_calibration_data\<close> select it, \<open>calibration_data_used\<close> reads it.
\<close>

datatype DAC_CHANNEL = DAC_CHANNEL_A | DAC_CHANNEL_B | DAC_CHANNEL_C | DAC_CHANNEL_D

fun channel_index :: "DAC_CHANNEL \<Rightarrow> nat" where
  "channel_index DAC_CHANNEL_A = 0"
| "channel_index DAC_CHANNEL_B = 1"
| "channel_index DAC_CHANNEL_C = 2"
| "channel_index DAC_CHANNEL_D = 3"

datatype calibration = Default | Auto

record DAC =
  dac_code :: "DAC_CHANNEL \<Rightarrow> 32 word"
  auto_channel_calibration_data :: "DAC_CHANNEL \<Rightarrow> nat \<Rightarrow> 32 word"
  calibration_data_used :: "DAC_CHANNEL \<Rightarrow> calibration"

definition DAC_set :: "DAC_CHANNEL \<Rightarrow> 32 word \<Rightarrow> DAC \<Rightarrow> DAC" where
  "DAC_set ch v d = d\<lparr>dac_code := (dac_code d)(ch := v)\<rparr>"

definition set_default_channel_calibration_data :: "DAC_CHANNEL \<Rightarrow> DAC \<Rightarrow> DAC" where
  "set_default_channel_calibration_data ch d =
     d\<lparr>calibration_data_used := (calibration_data_used d)(ch := Default)\<rparr>"

definition set_auto_channel_calibration_data :: "DAC_CHANNEL \<Rightarrow> DAC \<Rightarrow> DAC" where
  "set_auto_channel_calibration_data ch d =
     d\<lparr>calibration_data_used := (calibration_data_used d)(ch := Auto)\<rparr>"

definition update_auto_channel_calibration_data ::
    "DAC_CHANNEL \<Rightarrow> nat \<Rightarrow> 32 word \<Rightarrow> DAC \<Rightarrow> DAC" where
  "update_auto_channel_calibration_data ch i v d =
     d\<lparr>auto_channel_calibration_data :=
         (auto_channel_calibration_data d)(ch := (auto_channel_calibration_data d ch)(i := v))\<rparr>"

text \<open>
  Modelled from the spec: \<open>OC::vfx::ScrollingHistory\<close> is the fixed-depth buffer of the
  last \<open>kHistoryDepth\<close> pushed samples. \<open>Push\<close> shifts the oldest sample out,
  \<open>Read\<close> copies the \<open>kHistoryDepth\<close> samples out, \<open>Update\<close> only moves the scroll
  position of the display and leaves the samples alone.
\<close>

type_synonym ScrollingHistory = "real list"

definition history_Init :: "real \<Rightarrow> ScrollingHistory" where
  "history_Init v = replicate kHistoryDepth v"

definition history_Push :: "real \<Rightarrow> ScrollingHistory \<Rightarrow> ScrollingHistory" where
  "history_Push v h = drop (Suc (length h) - kHistoryDepth) (h @ [v])"

definition history_Read :: "ScrollingHistory \<Rightarrow> real list" where
  "history_Read h = h"

text \<open>
  What the channel takes from the rest of the firmware, as parameters: the factory
  calibration table \<open>OC::calibration_data.dac.calibrated_octaves\<close> (channel, octave),
  \<open>FreqMeasure.countToFrequency\<close>, \<open>OC_CORE_TIMER_RATE\<close> and
  \<open>OC::DAC::semitone_to_scaled_voltage_dac\<close> (channel, semitone, octave, scaling).
\<close>

record env =
  calibrated_octaves :: "DAC_CHANNEL \<Rightarrow> nat \<Rightarrow> 32 word"
  countToFrequency :: "32 word \<Rightarrow> real"
  OC_CORE_TIMER_RATE :: "32 word"
  semitone_to_scaled_voltage_dac :: "DAC_CHANNEL \<Rightarrow> 32 word \<Rightarrow> 32 word \<Rightarrow> 8 word \<Rightarrow> 32 word"

subsection \<open>The channel\<close>

record ReferenceChannel =
  values_' :: "nat \<Rightarrow> 32 word"
  rate_phase_' :: "32 word"
  mod_offset_' :: "32 word"
  last_pitch_' :: "32 word"
  autotuner_' :: bool
  autotuner_step_' :: "8 word"
  auto_DAC_offset_error_' :: "32 word"
  auto_frequency_' :: real
  auto_target_frequencies_' :: "real list"
  auto_calibration_data_' :: "16 word list"
  auto_last_frequency_' :: real
  auto_next_step_' :: bool
  auto_error_' :: bool
  auto_ready_' :: bool
  autotune_completed_' :: bool
  auto_freq_sum_' :: "32 word"
  auto_freq_count_' :: "32 word"
  ticks_since_last_freq_' :: "32 word"
  auto_num_passes_' :: "32 word"
  F_correction_factor_' :: "16 word"
  correction_direction_' :: bool
  correction_cnt_positive_' :: "16 word"
  correction_cnt_negative_' :: "16 word"
  octaves_cnt_' :: "16 word"
  dac_channel_' :: DAC_CHANNEL
  history_' :: ScrollingHistory

text \<open>
  Modelled from the spec: \<open>FreqMeasure\<close> is the poll-style frequency meter; its buffer
  of period counts is a queue, \<open>available()\<close> says that it is not empty and \<open>read()\<close>
  takes the oldest count out. The state a call works on is the channel, the DAC driver
  and this queue.
\<close>

record machine =
  chan :: ReferenceChannel
  dac :: DAC
  FreqMeasure :: "32 word list"

definition get_octave :: "ReferenceChannel \<Rightarrow> 32 word" where
  "get_octave c = values_' c REF_SETTING_OCTAVE"

definition get_semitone :: "ReferenceChannel \<Rightarrow> 32 word" where
  "get_semitone c = values_' c REF_SETTING_SEMI"

definition get_range :: "ReferenceChannel \<Rightarrow> 32 word" where
  "get_range c = values_' c REF_SETTING_RANGE"

definition get_rate :: "ReferenceChannel \<Rightarrow> 32 word" where
  "get_rate c = values_' c REF_SETTING_RATE"

definition get_voltage_scaling :: "ReferenceChannel \<Rightarrow> 8 word" where
  "get_voltage_scaling c =
     (if BUCHLA_SUPPORT then ucast (values_' c REF_SETTING_VOLTAGE_SCALING) else 0)"

definition autotuner_active :: "ReferenceChannel \<Rightarrow> 8 word" where
  "autotuner_active c =
     (if autotuner_' c \<and> autotuner_step_' c \<noteq> 0 then word_of_nat (channel_index (dac_channel_' c)) + 1
      else 0)"

definition autotuner_completed :: "ReferenceChannel \<Rightarrow> bool" where
  "autotuner_completed c = autotune_completed_' c"

definition autotuner_error :: "ReferenceChannel \<Rightarrow> bool" where
  "autotuner_error c = auto_error_' c"

text \<open>\<open>reset_calibration_data\<close>: the loop \<open>for (i = 0; i <= OCTAVES; i++)\<close>.\<close>

definition reset_calibration_data :: "ReferenceChannel \<Rightarrow> ReferenceChannel" where
  "reset_calibration_data c =
     fold (\<lambda>i c. c\<lparr>auto_target_frequencies_' := (auto_target_frequencies_' c)[i := 0],
                    auto_calibration_data_' := (auto_calibration_data_' c)[i := 0]\<rparr>)
          [0 ..< Suc OCTAVES] c"

definition auto_reset_step :: "ReferenceChannel \<Rightarrow> ReferenceChannel" where
  "auto_reset_step c =
     c\<lparr>auto_num_passes_' := 0,
       auto_DAC_offset_error_' := 0,
       correction_direction_' := False,
       correction_cnt_positive_' := 0,
       correction_cnt_negative_' := 0,
       F_correction_factor_' := 0xFF,
       auto_ready_' := False\<rparr>"

definition reset_autotuner :: "ReferenceChannel \<Rightarrow> ReferenceChannel" where
  "reset_autotuner c =
     reset_calibration_data
       (c\<lparr>ticks_since_last_freq_' := 0,
          auto_frequency_' := 0,
          auto_last_frequency_' := 0,
          auto_error_' := False,
          auto_ready_' := False,
          autotuner_' := False,
          autotuner_step_' := 0,
          F_correction_factor_' := 0xFF,
          correction_direction_' := False,
          correction_cnt_positive_' := 0,
          correction_cnt_negative_' := 0,
          octaves_cnt_' := 0,
          auto_num_passes_' := 0,
          auto_DAC_offset_error_' := 0,
          autotune_completed_' := False\<rparr>)"

definition autotuner_arm :: "8 word \<Rightarrow> ReferenceChannel \<Rightarrow> ReferenceChannel" where
  "autotuner_arm status c = (reset_autotuner c)\<lparr>autotuner_' := (status \<noteq> 0)\<rparr>"

definition autotuner_run :: "machine \<Rightarrow> machine" where
  "autotuner_run m =
     (let c = (chan m)\<lparr>autotuner_step_' :=
                 (if autotuner_' (chan m) then DAC_VOLT_0_BASELINE else DAC_VOLT_0_ARM)\<rparr>
      in if autotuner_step_' c = DAC_VOLT_0_BASELINE
         then m\<lparr>chan := c, dac := set_default_channel_calibration_data (dac_channel_' c) (dac m)\<rparr>
         else m\<lparr>chan := c\<rparr>)"

text \<open>
  \<open>Init\<close>: the members it assigns. \<open>InitDefaults\<close> loads the defaults of the settings
  table (\<open>SETTINGS_DECLARE\<close>); the members \<open>Init\<close> does not assign (\<open>auto_error_\<close>,
  \<open>auto_num_passes_\<close>, \<open>octaves_cnt_\<close>) keep the value of the object it is called on,
  which for the one global \<open>references_app\<close> is all zeros. The list of enabled
  settings (\<open>update_enabled_settings\<close>) only serves the menu and is left out.
\<close>

definition InitDefaults :: "nat \<Rightarrow> 32 word" where
  "InitDefaults = (\<lambda>i. if i = 5 then 440 else if i = 7 then 2 else 0)"

definition Init :: "DAC_CHANNEL \<Rightarrow> ReferenceChannel \<Rightarrow> ReferenceChannel" where
  "Init dac_channel c =
     (reset_calibration_data
       (c\<lparr>values_' := InitDefaults,
          rate_phase_' := 0,
          mod_offset_' := 0,
          last_pitch_' := 0,
          autotuner_' := False,
          autotuner_step_' := DAC_VOLT_0_ARM,
          dac_channel_' := dac_channel,
          auto_DAC_offset_error_' := 0,
          auto_frequency_' := 0,
          auto_last_frequency_' := 0,
          auto_freq_sum_' := 0,
          auto_freq_count_' := 0,
          auto_ready_' := False,
          ticks_since_last_freq_' := 0,
          auto_next_step_' := False,
          autotune_completed_' := False,
          F_correction_factor_' := 0xFF,
          correction_direction_' := False,
          correction_cnt_positive_' := 0,
          correction_cnt_negative_' := 0\<rparr>))
     \<lparr>history_' := history_Init 0\<rparr>"

text \<open>The zero-initialised static object that \<open>Init\<close> is first called on.\<close>

definition zero_channel :: ReferenceChannel where
  "zero_channel =
     \<lparr>values_' = (\<lambda>_. 0), rate_phase_' = 0, mod_offset_' = 0, last_pitch_' = 0,
      autotuner_' = False, autotuner_step_' = 0, auto_DAC_offset_error_' = 0,
      auto_frequency_' = 0, auto_target_frequencies_' = replicate (Suc OCTAVES) 0,
      auto_calibration_data_' = replicate (Suc OCTAVES) 0, auto_last_frequency_' = 0,
      auto_next_step_' = False, auto_error_' = False, auto_ready_' = False,
      autotune_completed_' = False, auto_freq_sum_' = 0, auto_freq_count_' = 0,
      ticks_since_last_freq_' = 0, auto_num_passes_' = 0, F_correction_factor_' = 0,
      correction_direction_' = False, correction_cnt_positive_' = 0,
      correction_cnt_negative_' = 0, octaves_cnt_' = 0, dac_channel_' = DAC_CHANNEL_A,
      history_' = replicate kHistoryDepth 0\<rparr>"

subsection \<open>The frequency averager\<close>

text \<open>
  \<open>auto_frequency\<close>: returns \<open>_f_result\<close> and the new state. \<open>OC::ui._Poke()\<close> only
  keeps the screensaver away and is left out.
\<close>

definition auto_frequency :: "env \<Rightarrow> machine \<Rightarrow> bool \<times> machine" where
  "auto_frequency e m =
     (let c = chan m;
          c1 = (if ticks_since_last_freq_' c > ERROR_TIMEOUT then c\<lparr>auto_error_' := True\<rparr> else c)
      in case FreqMeasure m of
           [] \<Rightarrow> (False, m\<lparr>chan := c1\<rparr>)
         | r # rest \<Rightarrow>
             (let c2 = c1\<lparr>auto_freq_sum_' := auto_freq_sum_' c1 + r,
                          auto_freq_count_' := auto_freq_count_' c1 + 1\<rparr>;
                  wait = (if F_correction_factor_' c2 = 0x1
                          then push_bit 2 FREQ_MEASURE_TIMEOUT
                          else drop_bit 2 FREQ_MEASURE_TIMEOUT)
              in if ticks_since_last_freq_' c2 > wait
                 then
                   (let f = countToFrequency e (auto_freq_sum_' c2 div auto_freq_count_' c2)
                    in (True,
                        m\<lparr>chan := c2\<lparr>auto_frequency_' := f,
                                     history_' := history_Push f (history_' c2),
                                     auto_freq_sum_' := 0,
                                     auto_ready_' := True,
                                     auto_freq_count_' := 0,
                                     ticks_since_last_freq_' := 0\<rparr>,
                          FreqMeasure := rest\<rparr>))
                 else (False, m\<lparr>chan := c2, FreqMeasure := rest\<rparr>)))"

subsection \<open>The target table\<close>

text \<open>
  The \<open>switch (get_voltage_scaling())\<close> of the baseline step, with the source's
  unrolled constants: the eleven assignments to \<open>auto_target_frequencies_'[0..10]\<close>.
\<close>

definition target_table :: "8 word \<Rightarrow> real \<Rightarrow> real list" where
  "target_table scaling target_frequency =
     (if scaling = 1 then
        map (\<lambda>k. target_frequency * k)
          [0.1767766952966368931843, 0.3149802624737182976666, 0.5612310241546865086093,
           1.0, 1.7817974362806785482150, 3.1748021039363991668836,
           5.6568542494923805818985, 10.0793683991589855253324,
           17.9593927729499718282113, 32.0, 57.0175179609817419645879]
      else if scaling = 2 then
        map (\<lambda>k. target_frequency * k)
          [0.3535533905932737863687, 0.5, 0.7071067811865475727373, 1.0,
           1.4142135623730951454746, 2.0, 2.8284271247461902909492, 4.0,
           5.6568542494923805818985, 8.0, 11.3137084989847611637970]
      else
        map (\<lambda>k. target_frequency * k)
          [0.125, 0.25, 0.5, 1.0, 2.0, 4.0, 8.0, 16.0, 32.0, 64.0, 128.0])"

text \<open>The averaging loop \<open>for (i = 0; i < kHistoryDepth; i++) average += history[i]\<close>.\<close>

definition history_sum :: "real list \<Rightarrow> real" where
  "history_sum history = fold (\<lambda>i average. average + history ! i) [0 ..< kHistoryDepth] 0"

subsection \<open>The calibration state machine\<close>

text \<open>
  \<open>measure_frequency_and_calc_error\<close>, one definition per \<open>case\<close> of its
  \<open>switch (autotuner_step_)\<close>. First \<open>case DAC_VOLT_0_BASELINE\<close>.
\<close>

definition measure_BASELINE :: "env \<Rightarrow> machine \<Rightarrow> machine" where
  "measure_BASELINE e m =
     (let (update, m1) = auto_frequency e m;
          c = chan m1
      in if update \<and> auto_num_passes_' c > word_of_nat kHistoryDepth then
           (let c1 = c\<lparr>auto_last_frequency_' := auto_frequency_' c\<rparr>;
                average = history_sum (history_Read (history_' c1));
                target_frequency = (auto_frequency_' c1 + average) / real (kHistoryDepth + 1);
                c2 = c1\<lparr>auto_target_frequencies_' :=
                          target_table (get_voltage_scaling c1) target_frequency\<rparr>;
                c3 = auto_reset_step c2
            in m1\<lparr>chan := c3\<lparr>autotuner_step_' := autotuner_step_' c3 + 1\<rparr>\<rparr>)
         else if update then
           m1\<lparr>chan := c\<lparr>auto_num_passes_' := auto_num_passes_' c + 1\<rparr>\<rparr>
         else m1)"

text \<open>
  The SAR correction of one emit (the \<open>else if (_update)\<close> branch of the voltage
  steps): count the pass, move the offset by \<open>F\<close> towards the target, halving \<open>F\<close>
  when the direction turns, and force the advance once both counters have passed
  \<open>CONVERGE_PASSES\<close>.
\<close>

definition correct_frequency :: "ReferenceChannel \<Rightarrow> ReferenceChannel" where
  "correct_frequency c =
     (let c1 = c\<lparr>auto_num_passes_' := auto_num_passes_' c + 1\<rparr>;
          target = auto_target_frequencies_' c1 ! (unat (autotuner_step_' c1) - unat DAC_VOLT_3m);
          c2 =
            (if target > auto_frequency_' c1 then
               (let ca = (if \<not> correction_direction_' c1
                          then c1\<lparr>F_correction_factor_' :=
                                    drop_bit 1 (F_correction_factor_' c1) OR 1\<rparr>
                          else c1);
                    cb = ca\<lparr>correction_direction_' := True\<rparr>;
                    cc = cb\<lparr>auto_DAC_offset_error_' :=
                              auto_DAC_offset_error_' cb + ucast (F_correction_factor_' cb)\<rparr>
                in if F_correction_factor_' cc = 0x1
                   then cc\<lparr>correction_cnt_positive_' := correction_cnt_positive_' cc + 1\<rparr>
                   else cc)
             else if target < auto_frequency_' c1 then
               (let ca = (if correction_direction_' c1
                          then c1\<lparr>F_correction_factor_' :=
                                    drop_bit 1 (F_correction_factor_' c1) OR 1\<rparr>
                          else c1);
                    cb = ca\<lparr>correction_direction_' := False\<rparr>;
                    cc = cb\<lparr>auto_DAC_offset_error_' :=
                              auto_DAC_offset_error_' cb - ucast (F_correction_factor_' cb)\<rparr>
                in if F_correction_factor_' cc = 0x1
                   then cc\<lparr>correction_cnt_negative_' := correction_cnt_negative_' cc + 1\<rparr>
                   else cc)
             else c1)
      in if CONVERGE_PASSES <s correction_cnt_positive_' c2
            \<and> CONVERGE_PASSES <s correction_cnt_negative_' c2
         then c2\<lparr>auto_num_passes_' := push_bit 1 MAX_NUM_PASSES\<rparr>
         else c2)"

text \<open>
  The advance of a voltage step (the \<open>if (_update && auto_num_passes_ > MAX_NUM_PASSES)\<close>
  branch): doubling check, last frequency, correction entry, reset, next step.
\<close>

definition store_and_advance :: "ReferenceChannel \<Rightarrow> ReferenceChannel" where
  "store_and_advance c =
     (let c1 = (if autotuner_step_' c > DAC_VOLT_2m
                   \<and> auto_last_frequency_' c * 1.25 > auto_frequency_' c
                then c\<lparr>auto_error_' := True\<rparr> else c);
          average = history_sum (history_Read (history_' c1));
          c2 = c1\<lparr>auto_last_frequency_' :=
                    (auto_frequency_' c1 + average) / real (kHistoryDepth + 1)\<rparr>;
          c3 = c2\<lparr>auto_calibration_data_' :=
                    (auto_calibration_data_' c2)
                      [unat (autotuner_step_' c2) - unat DAC_VOLT_3m :=
                         ucast (auto_DAC_offset_error_' c2)]\<rparr>;
          c4 = auto_reset_step c3
      in c4\<lparr>autotuner_step_' := autotuner_step_' c4 + 1\<rparr>)"

text \<open>\<open>case DAC_VOLT_3m: ... case DAC_VOLT_6:\<close>\<close>

definition measure_VOLT :: "env \<Rightarrow> machine \<Rightarrow> machine" where
  "measure_VOLT e m =
     (let (update, m1) = auto_frequency e m;
          c = chan m1
      in if update \<and> auto_num_passes_' c > MAX_NUM_PASSES then m1\<lparr>chan := store_and_advance c\<rparr>
         else if update then m1\<lparr>chan := correct_frequency c\<rparr>
         else m1)"

text \<open>\<open>case AUTO_CALIBRATION_STEP_LAST\<close>: write the learned table, one octave every 2000 ticks.\<close>

definition measure_LAST :: "env \<Rightarrow> machine \<Rightarrow> machine" where
  "measure_LAST e m =
     (let c = chan m;
          m1 =
            (if ticks_since_last_freq_' c > 2000 then
               (let i = nat (sint (octaves_cnt_' c));
                    new_auto_calibration_point =
                      calibrated_octaves e (dac_channel_' c) i
                        + scast (auto_calibration_data_' c ! i)
                in m\<lparr>dac := update_auto_channel_calibration_data (dac_channel_' c) i
                               new_auto_calibration_point
                               (DAC_set (dac_channel_' c) new_auto_calibration_point (dac m)),
                      chan := c\<lparr>ticks_since_last_freq_' := 0,
                                 octaves_cnt_' := octaves_cnt_' c + 1\<rparr>\<rparr>)
             else m);
          c1 = chan m1
      in if int OCTAVES < sint (octaves_cnt_' c1) then
           m1\<lparr>chan := c1\<lparr>autotune_completed_' := True,
                           autotuner_step_' := autotuner_step_' c1 + 1\<rparr>,
              dac := set_auto_channel_calibration_data (dac_channel_' c1) (dac m1)\<rparr>
         else m1)"

definition measure_frequency_and_calc_error :: "env \<Rightarrow> machine \<Rightarrow> machine" where
  "measure_frequency_and_calc_error e m =
     (let step = autotuner_step_' (chan m)
      in if step = DAC_VOLT_0_ARM then m
         else if step = DAC_VOLT_0_BASELINE then measure_BASELINE e m
         else if DAC_VOLT_3m \<le> step \<and> step \<le> DAC_VOLT_6 then measure_VOLT e m
         else if step = AUTO_CALIBRATION_STEP_LAST then measure_LAST e m
         else m\<lparr>chan := (chan m)\<lparr>autotuner_step_' := DAC_VOLT_0_ARM, autotuner_' := False\<rparr>\<rparr>)"

definition autotune_updateDAC :: "env \<Rightarrow> machine \<Rightarrow> machine" where
  "autotune_updateDAC e m =
     (let c = chan m; step = autotuner_step_' c; ch = dac_channel_' c
      in if step = DAC_VOLT_0_ARM then
           (let m1 = snd (auto_frequency e (m\<lparr>chan := c\<lparr>F_correction_factor_' := 0x1\<rparr>\<rparr>))
            in m1\<lparr>dac := DAC_set ch (calibrated_octaves e ch kOctaveZero) (dac m1)\<rparr>)
         else if step = DAC_VOLT_0_BASELINE then
           m\<lparr>dac := DAC_set ch (calibrated_octaves e ch kOctaveZero) (dac m)\<rparr>
         else if step = AUTO_CALIBRATION_STEP_LAST then m
         else
           (let default_calibration_point =
                  calibrated_octaves e ch (unat step - unat DAC_VOLT_3m)
            in m\<lparr>dac := DAC_set ch (default_calibration_point + auto_DAC_offset_error_' c)
                           (dac m)\<rparr>))"

text \<open>\<open>Update\<close>: the autotuner path, and below it the normal pitch output.\<close>

definition Update :: "env \<Rightarrow> machine \<Rightarrow> machine" where
  "Update e m =
     (if autotuner_' (chan m) then
        (let m1 = autotune_updateDAC e m
         in m1\<lparr>chan := (chan m1)\<lparr>ticks_since_last_freq_' :=
                                    ticks_since_last_freq_' (chan m1) + 1\<rparr>\<rparr>)
      else
        (let c = chan m;
             octave = get_octave c;
             range = get_range c;
             (c1, octave1) =
               (if range \<noteq> 0 then
                  (let ca = c\<lparr>rate_phase_' := rate_phase_' c + OC_CORE_TIMER_RATE e\<rparr>;
                       cb = (if rate_phase_' ca \<ge> get_rate ca * 1000000
                             then ca\<lparr>rate_phase_' := 0, mod_offset_' := 1 - mod_offset_' ca\<rparr>
                             else ca)
                   in (cb, octave + mod_offset_' cb * range))
                else (c\<lparr>rate_phase_' := 0, mod_offset_' := 0\<rparr>, octave));
             semitone = get_semitone c1
         in m\<lparr>dac := DAC_set (dac_channel_' c1)
                        (semitone_to_scaled_voltage_dac e (dac_channel_' c1) semitone octave1
                           (get_voltage_scaling c1))
                        (dac m),
               chan := c1\<lparr>last_pitch_' := push_bit 7 (semitone + octave1 * 12)\<rparr>\<rparr>))"

text \<open>
  \<open>ReferencesApp::ISR\<close>, seen from one channel: \<open>Update\<close>, then
  \<open>measure_frequency_and_calc_error\<close> when the channel's autotuner is active; when it
  is not, the app's own frequency display takes one reading from the meter.
\<close>

definition ISR :: "env \<Rightarrow> machine \<Rightarrow> machine" where
  "ISR e m =
     (let m1 = Update e m
      in if autotuner_active (chan m1) \<noteq> 0 then measure_frequency_and_calc_error e m1
         else m1\<lparr>FreqMeasure := tl (FreqMeasure m1)\<rparr>)"

text \<open>
  One tick of the timer: the period counts that the meter captured since the last tick
  join its queue, then the ISR runs. A run is a list of such ticks.
\<close>

definition tick :: "env \<Rightarrow> 32 word list \<Rightarrow> machine \<Rightarrow> machine" where
  "tick e rs m = ISR e (m\<lparr>FreqMeasure := FreqMeasure m @ rs\<rparr>)"

definition run :: "env \<Rightarrow> 32 word list list \<Rightarrow> machine \<Rightarrow> machine" where
  "run e rss m = fold (tick e) rss m"

subsection \<open>A concrete machine\<close>

text \<open>
  A firmware environment and a freshly booted machine, for evaluating the model: a
  factory table of 6553 codes per octave, a meter clocked at 60 MHz, channel A after
  \<open>Init\<close>, the DAC on its default tables, no reading pending.
\<close>

definition env0 :: env where
  "env0 = \<lparr>calibrated_octaves = (\<lambda>_ i. 6553 * word_of_nat i),
            countToFrequency = (\<lambda>w. 60000000 / real (unat w)),
            OC_CORE_TIMER_RATE = 60,
            semitone_to_scaled_voltage_dac = (\<lambda>ch semitone octave scaling. 6553 * (octave + 3))\<rparr>"

definition dac0 :: DAC where
  "dac0 = \<lparr>dac_code = (\<lambda>_. 0), auto_channel_calibration_data = (\<lambda>_ _. 0),
            calibration_data_used = (\<lambda>_. Default)\<rparr>"

definition boot :: machine where
  "boot = \<lparr>chan = Init DAC_CHANNEL_A zero_channel, dac = dac0, FreqMeasure = []\<rparr>"

text \<open>
  The machine after \<open>autotuner_arm(1)\<close>, and the same machine with the channel that 8193
  ticks without a reading leave.
\<close>

definition armed :: machine where
  "armed = boot\<lparr>chan := autotuner_arm 1 (chan boot)\<rparr>"

definition late :: machine where
  "late =
     armed\<lparr>chan := (chan armed)\<lparr>F_correction_factor_' := 1,
                                 ticks_since_last_freq_' := 8193\<rparr>\<rparr>"

text \<open>The machine after \<open>autotuner_arm(1)\<close> and \<open>autotuner_run()\<close>.\<close>

definition started :: machine where
  "started = autotuner_run armed"

text \<open>
  The commit step at its end: ten of the eleven octaves are written and the 2000 ticks
  before the last write have passed.
\<close>

definition commit_end :: machine where
  "commit_end =
     boot\<lparr>chan := (chan boot)
             \<lparr>autotuner_' := True, autotuner_step_' := AUTO_CALIBRATION_STEP_LAST,
              octaves_cnt_' := 10, ticks_since_last_freq_' := 2001\<rparr>\<rparr>"

text \<open>
  A VCO that does not track the CV: it stays at 100 Hz (a period count of 600000 at
  60 MHz). The channel is in a voltage step and has spent \<open>MAX_NUM_PASSES + 1\<close> passes
  correcting downwards by \<open>0xFF\<close> each; 129 ticks after the last emit the meter holds a
  new reading, and \<open>measure_frequency_and_calc_error\<close> is about to run. The table
  holds what the steps before have stored.
\<close>

definition stuck :: "8 word \<Rightarrow> 16 word list \<Rightarrow> machine" where
  "stuck step table =
     boot\<lparr>chan := (chan boot)
             \<lparr>autotuner_' := True, autotuner_step_' := step,
              auto_target_frequencies_' := target_table 0 100,
              auto_calibration_data_' := table,
              auto_frequency_' := 100, auto_last_frequency_' := 100,
              history_' := [100, 100, 100, 100, 100, 100, 100, 100, 100, 100], auto_ready_' := True,
              auto_num_passes_' := 1501, auto_DAC_offset_error_' := - 382755,
              ticks_since_last_freq_' := 129\<rparr>,
          FreqMeasure := [600000]\<rparr>"

definition stuck_1m :: machine where
  "stuck_1m = stuck DAC_VOLT_1m [10461, 10461, 0, 0, 0, 0, 0, 0, 0, 0, 0]"

definition stuck_2m :: machine where
  "stuck_2m = stuck DAC_VOLT_2m [10461, 0, 0, 0, 0, 0, 0, 0, 0, 0, 0]"

text \<open>Channel A in step \<open>DAC_VOLT_3m\<close>, with the target table of a 100 Hz baseline.\<close>

definition at_3m :: ReferenceChannel where
  "at_3m =
     (chan boot)\<lparr>autotuner_' := True, autotuner_step_' := DAC_VOLT_3m,
                 auto_target_frequencies_' := target_table 0 100,
                 auto_last_frequency_' := 100\<rparr>"

subsection \<open>Counting the emits of a run\<close>

text \<open>
  In every step but \<open>DAC_VOLT_0_ARM\<close> an armed channel calls \<open>auto_frequency\<close> once
  per tick, from \<open>measure_frequency_and_calc_error\<close>, after \<open>Update\<close> has counted the
  tick. \<open>emit_at\<close> says that this call emits, \<open>emits\<close> counts the emitting ticks of
  a run.
\<close>

definition emit_at :: "env \<Rightarrow> 32 word list \<Rightarrow> machine \<Rightarrow> bool" where
  "emit_at e rs m = fst (auto_frequency e (Update e (m\<lparr>FreqMeasure := FreqMeasure m @ rs\<rparr>)))"

fun emits :: "env \<Rightarrow> 32 word list list \<Rightarrow> machine \<Rightarrow> nat" where
  "emits e [] m = 0"
| "emits e (rs # rss) m = (if emit_at e rs m then 1 else 0) + emits e rss (tick e rs m)"

subsection \<open>A steady input\<close>

text \<open>
  An input that makes the averager emit every 129 ticks while the halving factor is not
  1: 128 ticks without a reading, then one tick with the reading \<open>r\<close>. Between two
  such cycles the armed channel has an empty meter queue and a cleared averager.
\<close>

definition cycle :: "32 word \<Rightarrow> 32 word list list" where
  "cycle r = replicate 128 [] @ [[r]]"

definition cycles :: "nat \<Rightarrow> 32 word \<Rightarrow> 32 word list list" where
  "cycles k r = concat (replicate k (cycle r))"

definition between_emits :: "machine \<Rightarrow> bool" where
  "between_emits m \<longleftrightarrow>
     autotuner_' (chan m) \<and> FreqMeasure m = []
     \<and> ticks_since_last_freq_' (chan m) = 0
     \<and> auto_freq_sum_' (chan m) = 0 \<and> auto_freq_count_' (chan m) = 0
     \<and> F_correction_factor_' (chan m) \<noteq> 1"

subsection \<open>The convergence controller on a list of observations\<close>

text \<open>
  One observation of the controller: the averager has emitted \<open>f\<close> into
  \<open>auto_frequency_\<close> and the correcting branch runs on it (the emit that advances the
  step makes no comparison and is not an observation). \<open>step_target\<close> is the target it
  compares with, \<open>F_values\<close> the halving factor after each observation of a list.
\<close>

definition step_target :: "ReferenceChannel \<Rightarrow> real" where
  "step_target c = auto_target_frequencies_' c ! (unat (autotuner_step_' c) - unat DAC_VOLT_3m)"

definition observe :: "real \<Rightarrow> ReferenceChannel \<Rightarrow> ReferenceChannel" where
  "observe f c = correct_frequency (c\<lparr>auto_frequency_' := f\<rparr>)"

fun F_values :: "ReferenceChannel \<Rightarrow> real list \<Rightarrow> 16 word list" where
  "F_values c [] = []"
| "F_values c (f # fs) = F_correction_factor_' (observe f c) # F_values (observe f c) fs"

text \<open>The comparisons against the target \<open>t\<close> change sign from each emit to the next.\<close>

fun alternating :: "real \<Rightarrow> real list \<Rightarrow> bool" where
  "alternating t [] = True"
| "alternating t [f] = (f \<noteq> t)"
| "alternating t (f # g # fs) = (f \<noteq> t \<and> (f < t) \<noteq> (g < t) \<and> alternating t (g # fs))"

text \<open>Strictly decreasing while above 1, and 1 from then on.\<close>

fun decreasing_to_1 :: "16 word list \<Rightarrow> bool" where
  "decreasing_to_1 (a # b # xs) = ((if 1 < a then b < a else b = 1) \<and> decreasing_to_1 (b # xs))"
| "decreasing_to_1 xs = True"

subsection \<open>An invariant for the DAC correction\<close>

text \<open>
  The halving factor never exceeds \<open>0xFF\<close>, and the correction has moved by at most
  \<open>0xFF\<close> per counted pass; the pass counter is at most \<open>MAX_NUM_PASSES + 1\<close>, or
  it is the \<open>MAX_NUM_PASSES << 1\<close> that convergence sets.
\<close>

definition offset_bounded :: "ReferenceChannel \<Rightarrow> bool" where
  "offset_bounded c \<longleftrightarrow>
     F_correction_factor_' c \<le> 0xFF \<and>
     ((auto_num_passes_' c \<le> MAX_NUM_PASSES + 1
        \<and> \<bar>sint (auto_DAC_offset_error_' c)\<bar> \<le> 255 * uint (auto_num_passes_' c))
      \<or> (auto_num_passes_' c = push_bit 1 MAX_NUM_PASSES
        \<and> \<bar>sint (auto_DAC_offset_error_' c)\<bar> \<le> 255 * 1501))"

section \<open>Properties\<close>

lemmas step_defs =
  DAC_VOLT_0_ARM_def DAC_VOLT_0_BASELINE_def DAC_VOLT_3m_def DAC_VOLT_2m_def
  DAC_VOLT_1m_def DAC_VOLT_0_def DAC_VOLT_1_def DAC_VOLT_2_def DAC_VOLT_3_def
  DAC_VOLT_4_def DAC_VOLT_5_def DAC_VOLT_6_def AUTO_CALIBRATION_STEP_LAST_def

lemmas const_defs =
  FREQ_MEASURE_TIMEOUT_def ERROR_TIMEOUT_def MAX_NUM_PASSES_def CONVERGE_PASSES_def
  kHistoryDepth_def OCTAVES_def kOctaveZero_def

subsection \<open>Reset\<close>

lemma reset_calibration_data_eq:
  "reset_calibration_data c =
     c\<lparr>auto_target_frequencies_' :=
         fold (\<lambda>i xs. xs[i := 0]) [0 ..< Suc OCTAVES] (auto_target_frequencies_' c),
       auto_calibration_data_' :=
         fold (\<lambda>i xs. xs[i := 0]) [0 ..< Suc OCTAVES] (auto_calibration_data_' c)\<rparr>"
proof -
  have "fold (\<lambda>i c. c\<lparr>auto_target_frequencies_' := (auto_target_frequencies_' c)[i := 0],
                       auto_calibration_data_' := (auto_calibration_data_' c)[i := 0]\<rparr>) js c
      = c\<lparr>auto_target_frequencies_' := fold (\<lambda>i xs. xs[i := 0]) js (auto_target_frequencies_' c),
          auto_calibration_data_' := fold (\<lambda>i xs. xs[i := 0]) js (auto_calibration_data_' c)\<rparr>"
    for js
    by (induction js arbitrary: c) simp_all
  then show ?thesis by (simp add: reset_calibration_data_def)
qed

lemma fold_zero_upt:
  "length xs = n \<Longrightarrow> fold (\<lambda>i xs. xs[i := 0]) [0 ..< n] xs = replicate n 0"
proof -
  have "k \<le> length xs \<Longrightarrow> fold (\<lambda>i xs. xs[i := 0]) [0 ..< k] xs = replicate k 0 @ drop k xs"
    for k
  proof (induction k)
    case 0
    then show ?case by simp
  next
    case (Suc k)
    then have "k < length xs" by simp
    then show ?case using Suc
      by (simp add: list_update_append upd_conv_take_nth_drop replicate_append_same
          Cons_nth_drop_Suc[symmetric])
  qed
  from this[of n] show "length xs = n \<Longrightarrow> ?thesis" by simp
qed

text \<open>
  C6. After \<open>reset_autotuner\<close> all eleven entries of the correction table
  \<open>auto_calibration_data_\<close> are zero, the measured frequency and the last settled
  frequency are zero, and the step is \<open>DAC_VOLT_0_ARM\<close> with the autotuner switched off
  (the spec's \<open>ARM\<close> or \<open>IDLE\<close>). The table of the class has \<open>OCTAVES + 1\<close> entries,
  which is the hypothesis on the list.
\<close>

theorem reset_autotuner_clears:
  assumes "length (auto_calibration_data_' c) = Suc OCTAVES"
  shows "auto_calibration_data_' (reset_autotuner c) = replicate 11 0
       \<and> auto_frequency_' (reset_autotuner c) = 0
       \<and> auto_last_frequency_' (reset_autotuner c) = 0
       \<and> autotuner_step_' (reset_autotuner c) = DAC_VOLT_0_ARM
       \<and> \<not> autotuner_' (reset_autotuner c)"
  using assms fold_zero_upt[of "auto_calibration_data_' c" "Suc OCTAVES"]
  by (simp add: reset_autotuner_def reset_calibration_data_eq OCTAVES_def DAC_VOLT_0_ARM_def)

theorem reset_autotuner_clears_witness:
  "length (auto_calibration_data_'
      (zero_channel\<lparr>auto_calibration_data_' := [1, 2, 3, 4, 5, 6, 7, 8, 9, 10, 11],
                    auto_frequency_' := 440, auto_last_frequency_' := 220,
                    autotuner_step_' := DAC_VOLT_2\<rparr>)) = Suc OCTAVES
   \<and> auto_calibration_data_'
      (reset_autotuner
        (zero_channel\<lparr>auto_calibration_data_' := [1, 2, 3, 4, 5, 6, 7, 8, 9, 10, 11],
                      auto_frequency_' := 440, auto_last_frequency_' := 220,
                      autotuner_step_' := DAC_VOLT_2\<rparr>)) = replicate 11 0
   \<and> autotuner_step_'
      (reset_autotuner
        (zero_channel\<lparr>auto_calibration_data_' := [1, 2, 3, 4, 5, 6, 7, 8, 9, 10, 11],
                      auto_frequency_' := 440, auto_last_frequency_' := 220,
                      autotuner_step_' := DAC_VOLT_2\<rparr>)) = DAC_VOLT_0_ARM"
  using reset_autotuner_clears
    [of "zero_channel\<lparr>auto_calibration_data_' := [1, 2, 3, 4, 5, 6, 7, 8, 9, 10, 11],
                       auto_frequency_' := 440, auto_last_frequency_' := 220,
                       autotuner_step_' := DAC_VOLT_2\<rparr>"]
  by (simp add: OCTAVES_def)

subsection \<open>The target table\<close>

text \<open>
  C9. Without \<open>BUCHLA_SUPPORT\<close>, \<open>get_voltage_scaling\<close> is 0 for every channel in
  every state, so the table that the baseline step builds is always the 1 V/oct one;
  the branches \<open>case 1\<close> and \<open>case 2\<close> are never taken.
\<close>

theorem voltage_scaling_always_1V:
  "get_voltage_scaling c = 0
   \<and> target_table (get_voltage_scaling c) f =
       [f * 0.125, f * 0.25, f * 0.5, f * 1.0, f * 2.0, f * 4.0, f * 8.0, f * 16.0,
        f * 32.0, f * 64.0, f * 128.0]"
  by (simp add: get_voltage_scaling_def BUCHLA_SUPPORT_def target_table_def)

subsection \<open>The state machine, case by case\<close>

lemma auto_frequency_keeps [simp]:
  "autotuner_step_' (chan (snd (auto_frequency e m))) = autotuner_step_' (chan m)"
  "autotuner_' (chan (snd (auto_frequency e m))) = autotuner_' (chan m)"
  "dac_channel_' (chan (snd (auto_frequency e m))) = dac_channel_' (chan m)"
  "auto_num_passes_' (chan (snd (auto_frequency e m))) = auto_num_passes_' (chan m)"
  "auto_DAC_offset_error_' (chan (snd (auto_frequency e m))) = auto_DAC_offset_error_' (chan m)"
  "F_correction_factor_' (chan (snd (auto_frequency e m))) = F_correction_factor_' (chan m)"
  "correction_direction_' (chan (snd (auto_frequency e m))) = correction_direction_' (chan m)"
  "correction_cnt_positive_' (chan (snd (auto_frequency e m))) = correction_cnt_positive_' (chan m)"
  "correction_cnt_negative_' (chan (snd (auto_frequency e m))) = correction_cnt_negative_' (chan m)"
  "octaves_cnt_' (chan (snd (auto_frequency e m))) = octaves_cnt_' (chan m)"
  "auto_target_frequencies_' (chan (snd (auto_frequency e m))) = auto_target_frequencies_' (chan m)"
  "auto_calibration_data_' (chan (snd (auto_frequency e m))) = auto_calibration_data_' (chan m)"
  "auto_last_frequency_' (chan (snd (auto_frequency e m))) = auto_last_frequency_' (chan m)"
  "autotune_completed_' (chan (snd (auto_frequency e m))) = autotune_completed_' (chan m)"
  "values_' (chan (snd (auto_frequency e m))) = values_' (chan m)"
  "dac (snd (auto_frequency e m)) = dac m"
  by (simp_all add: auto_frequency_def Let_def split: list.splits)

lemma measure_BASELINE_step:
  "autotuner_step_' (chan (measure_BASELINE e m)) = autotuner_step_' (chan m)
   \<or> autotuner_step_' (chan (measure_BASELINE e m)) = autotuner_step_' (chan m) + 1"
  by (cases "auto_frequency e m") (use auto_frequency_keeps(1)[of e m] in \<open>simp add: measure_BASELINE_def Let_def auto_reset_step_def\<close>)

lemma measure_VOLT_step:
  "autotuner_step_' (chan (measure_VOLT e m)) = autotuner_step_' (chan m)
   \<or> autotuner_step_' (chan (measure_VOLT e m)) = autotuner_step_' (chan m) + 1"
  by (cases "auto_frequency e m") (use auto_frequency_keeps(1)[of e m] in \<open>simp add: measure_VOLT_def Let_def auto_reset_step_def store_and_advance_def correct_frequency_def\<close>)

lemma volt_step_unat:
  "(DAC_VOLT_3m \<le> s \<and> s \<le> DAC_VOLT_6) = (2 \<le> unat s \<and> unat s \<le> 11)"
  by (simp add: step_defs word_le_nat_alt)

lemma volt_step_neq:
  assumes "DAC_VOLT_3m \<le> s" "s \<le> DAC_VOLT_6"
  shows "s \<noteq> 0" "s \<noteq> 1" "s \<noteq> 12" "s \<noteq> 13" "s + 1 \<noteq> 13" "s + 1 \<noteq> 0" "s + 1 \<noteq> 1"
proof -
  from assms volt_step_unat[of s] have u: "2 \<le> unat s" "unat s \<le> 11"
    by simp_all
  then have "unat (s + 1) = unat s + 1"
    by (simp add: unat_word_ariths)
  with u have "unat s \<noteq> unat (0 :: 8 word)" "unat s \<noteq> unat (1 :: 8 word)"
    "unat s \<noteq> unat (12 :: 8 word)" "unat s \<noteq> unat (13 :: 8 word)"
    "unat (s + 1) \<noteq> unat (13 :: 8 word)" "unat (s + 1) \<noteq> unat (0 :: 8 word)"
    "unat (s + 1) \<noteq> unat (1 :: 8 word)"
    by simp_all
  then show "s \<noteq> 0" "s \<noteq> 1" "s \<noteq> 12" "s \<noteq> 13" "s + 1 \<noteq> 13" "s + 1 \<noteq> 0" "s + 1 \<noteq> 1"
    by metis+
qed

lemma measure_at_ARM:
  "autotuner_step_' (chan m) = DAC_VOLT_0_ARM \<Longrightarrow> measure_frequency_and_calc_error e m = m"
  by (simp add: measure_frequency_and_calc_error_def)

lemma measure_at_BASELINE:
  "autotuner_step_' (chan m) = DAC_VOLT_0_BASELINE \<Longrightarrow>
   measure_frequency_and_calc_error e m = measure_BASELINE e m"
  by (simp add: measure_frequency_and_calc_error_def step_defs)

lemma measure_at_VOLT:
  "DAC_VOLT_3m \<le> autotuner_step_' (chan m) \<Longrightarrow> autotuner_step_' (chan m) \<le> DAC_VOLT_6 \<Longrightarrow>
   measure_frequency_and_calc_error e m = measure_VOLT e m"
  using volt_step_neq(1,2)[of "autotuner_step_' (chan m)"]
  by (simp add: measure_frequency_and_calc_error_def Let_def DAC_VOLT_0_ARM_def DAC_VOLT_0_BASELINE_def)

lemma measure_at_LAST:
  "autotuner_step_' (chan m) = AUTO_CALIBRATION_STEP_LAST \<Longrightarrow>
   measure_frequency_and_calc_error e m = measure_LAST e m"
  by (simp add: measure_frequency_and_calc_error_def step_defs)

lemma measure_at_other:
  "autotuner_step_' (chan m) \<noteq> DAC_VOLT_0_ARM \<Longrightarrow>
   autotuner_step_' (chan m) \<noteq> DAC_VOLT_0_BASELINE \<Longrightarrow>
   \<not> (DAC_VOLT_3m \<le> autotuner_step_' (chan m) \<and> autotuner_step_' (chan m) \<le> DAC_VOLT_6) \<Longrightarrow>
   autotuner_step_' (chan m) \<noteq> AUTO_CALIBRATION_STEP_LAST \<Longrightarrow>
   measure_frequency_and_calc_error e m =
     m\<lparr>chan := (chan m)\<lparr>autotuner_step_' := DAC_VOLT_0_ARM, autotuner_' := False\<rparr>\<rparr>"
  by (auto simp add: measure_frequency_and_calc_error_def Let_def)

text \<open>
  C7. The step after \<open>AUTO_CALIBRATION_STEP_LAST\<close> (the spec's \<open>DONE\<close>) is only
  entered from \<open>AUTO_CALIBRATION_STEP_LAST\<close> with the octave counter past \<open>OCTAVES\<close>,
  and the call that enters it has raised \<open>autotune_completed_\<close> and made the learned
  table the live one of the channel.
\<close>

theorem done_entered:
  assumes "autotuner_step_' (chan m) \<noteq> AUTO_CALIBRATION_STEP_LAST + 1"
    and "autotuner_step_' (chan (measure_frequency_and_calc_error e m)) = AUTO_CALIBRATION_STEP_LAST + 1"
  shows "autotuner_step_' (chan m) = AUTO_CALIBRATION_STEP_LAST
       \<and> int OCTAVES < sint (octaves_cnt_' (chan (measure_frequency_and_calc_error e m)))
       \<and> autotune_completed_' (chan (measure_frequency_and_calc_error e m))
       \<and> calibration_data_used (dac (measure_frequency_and_calc_error e m))
            (dac_channel_' (chan (measure_frequency_and_calc_error e m))) = Auto"
proof -
  let ?s = "autotuner_step_' (chan m)"
  consider (arm) "?s = DAC_VOLT_0_ARM" | (base) "?s = DAC_VOLT_0_BASELINE"
    | (volt) "DAC_VOLT_3m \<le> ?s" "?s \<le> DAC_VOLT_6"
    | (last) "?s = AUTO_CALIBRATION_STEP_LAST"
    | (other) "?s \<noteq> DAC_VOLT_0_ARM" "?s \<noteq> DAC_VOLT_0_BASELINE" "\<not> (DAC_VOLT_3m \<le> ?s \<and> ?s \<le> DAC_VOLT_6)"
       "?s \<noteq> AUTO_CALIBRATION_STEP_LAST"
    by blast
  then show ?thesis
  proof cases
    case arm
    with assms show ?thesis by (simp add: measure_at_ARM)
  next
    case base
    with assms measure_BASELINE_step[of e m] show ?thesis
      by (simp add: measure_at_BASELINE step_defs)
  next
    case volt
    with assms measure_VOLT_step[of e m] volt_step_neq(4,5)[OF volt] show ?thesis
      by (auto simp add: measure_at_VOLT step_defs)
  next
    case last
    with assms show ?thesis
      by (simp add: measure_at_LAST measure_LAST_def Let_def step_defs
         set_auto_channel_calibration_data_def split: if_splits)
  next
    case other
    with assms show ?thesis by (simp add: measure_at_other step_defs)
  qed
qed


subsection \<open>Runs\<close>

lemma run_Nil [simp]: "run e [] m = m"
  by (simp add: run_def)

lemma run_Cons [simp]: "run e (rs # rss) m = run e rss (tick e rs m)"
  by (simp add: run_def)

lemma run_append: "run e (rss @ rss') m = run e rss' (run e rss m)"
  by (simp add: run_def)

lemma run_snoc: "run e (rss @ [rs]) m = tick e rs (run e rss m)"
  by (simp add: run_def)

lemma replicate_Suc_snoc: "replicate (Suc n) x = replicate n x @ [x]"
  by (simp add: replicate_append_same)

lemma autotuner_active_iff:
  "(autotuner_active c \<noteq> 0) = (autotuner_' c \<and> autotuner_step_' c \<noteq> 0)"
  by (cases "dac_channel_' c") (simp_all add: autotuner_active_def)

lemma auto_frequency_Nil:
  "FreqMeasure m = [] \<Longrightarrow>
   auto_frequency e m =
     (False, m\<lparr>chan := (if ERROR_TIMEOUT < ticks_since_last_freq_' (chan m)
                        then (chan m)\<lparr>auto_error_' := True\<rparr> else chan m)\<rparr>)"
  by (simp add: auto_frequency_def Let_def)

lemma tick_ARM_silent:
  assumes "autotuner_' (chan m)" "autotuner_step_' (chan m) = DAC_VOLT_0_ARM" "FreqMeasure m = []"
  shows "chan (tick e [] m) =
      (chan m)\<lparr>F_correction_factor_' := 1,
               auto_error_' := (auto_error_' (chan m) \<or> ERROR_TIMEOUT < ticks_since_last_freq_' (chan m)),
               ticks_since_last_freq_' := ticks_since_last_freq_' (chan m) + 1\<rparr>"
    and "FreqMeasure (tick e [] m) = []"
  using assms
  by (simp_all add: tick_def ISR_def Update_def autotune_updateDAC_def Let_def auto_frequency_Nil
      autotuner_active_iff DAC_VOLT_0_ARM_def)

lemma silent_ARM_run:
  assumes "autotuner_' (chan m)" "autotuner_step_' (chan m) = DAC_VOLT_0_ARM" "FreqMeasure m = []"
    "ticks_since_last_freq_' (chan m) = 0"
  shows "autotuner_' (chan (run e (replicate n []) m))
     \<and> autotuner_step_' (chan (run e (replicate n []) m)) = DAC_VOLT_0_ARM
     \<and> FreqMeasure (run e (replicate n []) m) = []
     \<and> ticks_since_last_freq_' (chan (run e (replicate n []) m)) = word_of_nat n
     \<and> (8193 < n \<longrightarrow> auto_error_' (chan (run e (replicate n []) m)))"
proof (induction n)
  case 0
  with assms show ?case by simp
next
  case (Suc n)
  let ?m = "run e (replicate n []) m"
  have r: "run e (replicate (Suc n) []) m = tick e [] ?m"
    by (simp only: replicate_Suc_snoc run_snoc)
  from Suc have a: "autotuner_' (chan ?m)" "autotuner_step_' (chan ?m) = DAC_VOLT_0_ARM"
    "FreqMeasure ?m = []" "ticks_since_last_freq_' (chan ?m) = word_of_nat n"
    "8193 < n \<Longrightarrow> auto_error_' (chan ?m)"
    by simp_all
  have e: "auto_error_' (chan (tick e [] ?m))" if "8193 < Suc n"
  proof (cases "8193 < n")
    case True
    with a show ?thesis by (simp add: tick_ARM_silent(1)[OF a(1-3)])
  next
    case False
    with that have "n = 8193" by simp
    with a(4) have "ERROR_TIMEOUT < ticks_since_last_freq_' (chan ?m)"
      by (simp add: ERROR_TIMEOUT_def FREQ_MEASURE_TIMEOUT_def)
    then show ?thesis by (simp add: tick_ARM_silent(1)[OF a(1-3)])
  qed
  show ?case
    unfolding r using a e
    by (simp add: tick_ARM_silent[OF a(1-3)])
qed


subsection \<open>Word arithmetic of the correction\<close>

lemma halve_unat:
  "unat (drop_bit 1 F OR 1 :: 16 word) = unat F div 2 + of_bool (even (unat F div 2))"
proof -
  have a: "unat (drop_bit 1 F) = unat F div 2"
    by (simp add: unat_drop_bit_eq drop_bit_eq_div unat_div)
  have b: "unat (1 :: 16 word) = 1" by simp
  have "unat (drop_bit 1 F OR 1) = unat (drop_bit 1 F) OR unat (1 :: 16 word)"
    by (rule unsigned_or_eq)
  also have "\<dots> = (unat F div 2) OR 1"
    by (simp only: a b)
  also have "\<dots> = unat F div 2 + of_bool (even (unat F div 2))"
    by (rule or_one_eq)
  finally show ?thesis .
qed

lemma halve_less:
  assumes "1 < unat (F :: 16 word)"
  shows "unat (drop_bit 1 F OR 1) < unat F"
proof (cases "even (unat F div 2)")
  case True
  then obtain b where b: "unat F div 2 = 2 * b" by (auto elim: evenE)
  with assms have "0 < b" by (cases b) auto
  with b have "Suc (unat F div 2) < unat F" by linarith
  with True show ?thesis unfolding halve_unat by simp
next
  case False
  with assms show ?thesis unfolding halve_unat by simp
qed

lemma halve_pos:
  "0 < unat (drop_bit 1 F OR 1 :: 16 word)"
  unfolding halve_unat by (cases "even (unat F div 2)") (simp_all add: odd_pos)

lemma halve_le_255:
  assumes "unat (F :: 16 word) \<le> 255"
  shows "unat (drop_bit 1 F OR 1) \<le> 255"
  using assms unfolding halve_unat by (cases "even (unat F div 2)") simp_all

lemma int_range_32:
  "\<bar>s :: int\<bar> \<le> 382755 \<Longrightarrow> 0 \<le> k \<Longrightarrow> k \<le> 255 \<Longrightarrow>
   - (2 ^ 31) \<le> s + k \<and> s + k < 2 ^ 31 \<and> - (2 ^ 31) \<le> s - k \<and> s - k < 2 ^ 31"
  by auto

lemma sint_ucast_F:
  "sint (ucast (F :: 16 word) :: 32 word) = uint F"
proof -
  have b: "0 \<le> uint F" "uint F < 2 ^ 16" using uint_lt2p[of F] by simp_all
  have "- (2 ^ 31) \<le> (0 :: int)" by simp
  then have c3: "- (2 ^ 31) \<le> uint F" using b(1) by (rule order_trans)
  have c12: "uint F < 2 ^ 32" "uint F < 2 ^ 31" using b(2) by auto
  note c = c12 c3
  have "uint (ucast F :: 32 word) = take_bit 32 (uint F)"
    by (simp add: unsigned_ucast_eq)
  also have "\<dots> = uint F" using b c by (simp add: take_bit_int_eq_self)
  finally have u: "uint (ucast F :: 32 word) = uint F" .
  have "sint (ucast F :: 32 word) = signed_take_bit 31 (uint (ucast F :: 32 word))"
    by (simp add: sint_uint)
  also have "\<dots> = uint F" unfolding u using c by (simp add: signed_take_bit_int_eq_self)
  finally show ?thesis .
qed

lemma sint_offset_add:
  assumes "\<bar>sint (x :: 32 word)\<bar> \<le> 382755" "uint (F :: 16 word) \<le> 255"
  shows "sint (x + ucast F) = sint x + uint F"
proof -
  have "0 \<le> uint F" by simp
  from int_range_32[OF assms(1) this assms(2)] show ?thesis
    by (simp add: sint_word_add sint_ucast_F signed_take_bit_int_eq_self)
qed

lemma sint_offset_diff:
  assumes "\<bar>sint (x :: 32 word)\<bar> \<le> 382755" "uint (F :: 16 word) \<le> 255"
  shows "sint (x - ucast F) = sint x - uint F"
proof -
  have "0 \<le> uint F" by simp
  from int_range_32[OF assms(1) this assms(2)] show ?thesis
    by (simp add: sint_word_diff sint_ucast_F signed_take_bit_int_eq_self)
qed

lemma unat_passes_Suc:
  "unat (p :: 32 word) \<le> 1500 \<Longrightarrow> unat (p + 1) = Suc (unat p)"
  by (simp add: unat_word_ariths)

lemma passes_le_MAX: "(\<not> MAX_NUM_PASSES < (p :: 32 word)) = (unat p \<le> 1500)"
  by (simp add: MAX_NUM_PASSES_def word_less_nat_alt not_less)


lemma uint_passes_Suc:
  assumes "unat (p :: 32 word) \<le> 1500" shows "uint (p + 1) = uint p + 1"
proof -
  have "int (unat (p + 1)) = int (Suc (unat p))"
    by (simp only: unat_passes_Suc[OF assms])
  then show ?thesis by simp
qed

lemma passes_le_MAX_uint: "(\<not> MAX_NUM_PASSES < (p :: 32 word)) = (uint p \<le> 1500)"
  by (simp add: MAX_NUM_PASSES_def word_less_def not_less)

lemma passes_Suc_le:
  assumes "unat (p :: 32 word) \<le> 1500" shows "p + 1 \<le> MAX_NUM_PASSES + 1"
  using assms unat_passes_Suc[OF assms] by (simp add: MAX_NUM_PASSES_def word_le_nat_alt)

lemma passes_neq_3000:
  assumes "unat (p :: 32 word) \<le> 1500" shows "p \<noteq> push_bit 1 MAX_NUM_PASSES"
  using assms by (auto simp: MAX_NUM_PASSES_def)

lemma abs_step:
  "\<bar>s :: int\<bar> \<le> 255 * p \<Longrightarrow> 0 \<le> k \<Longrightarrow> k \<le> 255 \<Longrightarrow>
   \<bar>s + k\<bar> \<le> 255 * (p + 1) \<and> \<bar>s - k\<bar> \<le> 255 * (p + 1)"
  by auto

lemma F_le_255: "((F :: 16 word) \<le> 0xFF) = (uint F \<le> 255)"
  by (simp add: word_le_def)

lemma halve_le_FF: "(F :: 16 word) \<le> 0xFF \<Longrightarrow> drop_bit 1 F OR 1 \<le> 0xFF"
  using halve_le_255[of F] by (simp add: word_le_nat_alt)

lemma correct_frequency_F:
  "F_correction_factor_' (correct_frequency c) = F_correction_factor_' c
   \<or> F_correction_factor_' (correct_frequency c) = drop_bit 1 (F_correction_factor_' c) OR 1"
  by (simp add: correct_frequency_def Let_def)

lemma correct_frequency_offset:
  "auto_DAC_offset_error_' (correct_frequency c) = auto_DAC_offset_error_' c
   \<or> auto_DAC_offset_error_' (correct_frequency c) =
        auto_DAC_offset_error_' c + ucast (F_correction_factor_' (correct_frequency c))
   \<or> auto_DAC_offset_error_' (correct_frequency c) =
        auto_DAC_offset_error_' c - ucast (F_correction_factor_' (correct_frequency c))"
  by (simp add: correct_frequency_def Let_def)

lemma correct_frequency_passes:
  "auto_num_passes_' (correct_frequency c) = auto_num_passes_' c + 1
   \<or> auto_num_passes_' (correct_frequency c) = push_bit 1 MAX_NUM_PASSES"
  by (simp add: correct_frequency_def Let_def)

lemma offset_bounded_correct_frequency:
  assumes "offset_bounded c" "\<not> MAX_NUM_PASSES < auto_num_passes_' c"
  shows "offset_bounded (correct_frequency c)"
proof -
  let ?c = "correct_frequency c"
  from assms(2) have p: "unat (auto_num_passes_' c) \<le> 1500"
    by (simp add: passes_le_MAX)
  note p1 = uint_passes_Suc[OF p] passes_Suc_le[OF p]
  note pn = passes_neq_3000[OF p]
  from assms(1) pn have b: "\<bar>sint (auto_DAC_offset_error_' c)\<bar> \<le> 255 * uint (auto_num_passes_' c)"
    and F: "F_correction_factor_' c \<le> 0xFF"
    by (simp_all add: offset_bounded_def)
  from assms(2) have pu: "uint (auto_num_passes_' c) \<le> 1500"
    by (simp add: passes_le_MAX_uint)
  with b have b': "\<bar>sint (auto_DAC_offset_error_' c)\<bar> \<le> 382755" by auto
  from F correct_frequency_F[of c] halve_le_FF[OF F] have F': "F_correction_factor_' ?c \<le> 0xFF"
    by auto
  then have Fu: "uint (F_correction_factor_' ?c) \<le> 255" by (simp add: F_le_255)
  have Fn: "0 \<le> uint (F_correction_factor_' ?c)" by simp
  have o: "\<bar>sint (auto_DAC_offset_error_' ?c)\<bar> \<le> 255 * (uint (auto_num_passes_' c) + 1)"
  proof -
    consider "auto_DAC_offset_error_' ?c = auto_DAC_offset_error_' c"
      | "auto_DAC_offset_error_' ?c = auto_DAC_offset_error_' c + ucast (F_correction_factor_' ?c)"
      | "auto_DAC_offset_error_' ?c = auto_DAC_offset_error_' c - ucast (F_correction_factor_' ?c)"
      using correct_frequency_offset[of c] by blast
    then show ?thesis
    proof cases
      case 1
      with b show ?thesis by simp
    next
      case 2
      then have "sint (auto_DAC_offset_error_' ?c)
          = sint (auto_DAC_offset_error_' c) + uint (F_correction_factor_' ?c)"
        using sint_offset_add[OF b' Fu] by simp
      with abs_step[OF b Fn Fu] show ?thesis by simp
    next
      case 3
      then have "sint (auto_DAC_offset_error_' ?c)
          = sint (auto_DAC_offset_error_' c) - uint (F_correction_factor_' ?c)"
        using sint_offset_diff[OF b' Fu] by simp
      with abs_step[OF b Fn Fu] show ?thesis by simp
    qed
  qed
  from correct_frequency_passes[of c] show ?thesis
  proof
    assume q: "auto_num_passes_' ?c = auto_num_passes_' c + 1"
    with o p1 F' show ?thesis by (simp add: offset_bounded_def)
  next
    assume q: "auto_num_passes_' ?c = push_bit 1 MAX_NUM_PASSES"
    from o pu have "\<bar>sint (auto_DAC_offset_error_' ?c)\<bar> \<le> 255 * 1501" by auto
    with q F' show ?thesis by (simp add: offset_bounded_def)
  qed
qed


lemma offset_bounded_cong:
  "F_correction_factor_' c' = F_correction_factor_' c \<Longrightarrow>
   auto_num_passes_' c' = auto_num_passes_' c \<Longrightarrow>
   auto_DAC_offset_error_' c' = auto_DAC_offset_error_' c \<Longrightarrow>
   offset_bounded c' = offset_bounded c"
  by (simp add: offset_bounded_def)

lemma offset_bounded_reset: "offset_bounded (auto_reset_step c)"
  by (simp add: offset_bounded_def auto_reset_step_def MAX_NUM_PASSES_def)

lemma offset_bounded_reset_step:
  "offset_bounded ((auto_reset_step c)\<lparr>autotuner_step_' := s\<rparr>)"
  by (simp add: offset_bounded_def auto_reset_step_def MAX_NUM_PASSES_def)

lemma offset_bounded_auto_frequency:
  "offset_bounded (chan (snd (auto_frequency e m))) = offset_bounded (chan m)"
  by (rule offset_bounded_cong) simp_all

lemma offset_bounded_store_and_advance: "offset_bounded (store_and_advance c)"
  by (simp add: store_and_advance_def Let_def offset_bounded_reset_step)

lemma offset_bounded_baseline_pass:
  assumes "offset_bounded c" "\<not> word_of_nat kHistoryDepth < auto_num_passes_' c"
  shows "offset_bounded (c\<lparr>auto_num_passes_' := auto_num_passes_' c + 1\<rparr>)"
proof -
  from assms(2) have p10: "unat (auto_num_passes_' c) \<le> 10"
    by (simp add: kHistoryDepth_def word_less_nat_alt not_less)
  then have p: "unat (auto_num_passes_' c) \<le> 1500" by simp
  from p10 have pu: "uint (auto_num_passes_' c) \<le> 10"
    using assms(2) by (simp add: kHistoryDepth_def word_less_def not_less)
  from assms(1) passes_neq_3000[OF p]
  have b: "\<bar>sint (auto_DAC_offset_error_' c)\<bar> \<le> 255 * uint (auto_num_passes_' c)"
    and F: "F_correction_factor_' c \<le> 0xFF"
    by (simp_all add: offset_bounded_def)
  from b have "\<bar>sint (auto_DAC_offset_error_' c)\<bar> \<le> 255 * (uint (auto_num_passes_' c) + 1)"
    by auto
  with F uint_passes_Suc[OF p] passes_Suc_le[OF p] show ?thesis
    by (simp add: offset_bounded_def)
qed

lemma offset_bounded_measure_BASELINE:
  assumes "offset_bounded (chan m)"
  shows "offset_bounded (chan (measure_BASELINE e m))"
proof -
  obtain u m1 where a: "auto_frequency e m = (u, m1)" by (cases "auto_frequency e m")
  then have "m1 = snd (auto_frequency e m)" by simp
  with assms have b: "offset_bounded (chan m1)" by (simp add: offset_bounded_auto_frequency)
  show ?thesis
    using a b offset_bounded_baseline_pass[of "chan m1"]
    by (simp add: measure_BASELINE_def Let_def offset_bounded_reset_step)
qed

lemma offset_bounded_measure_VOLT:
  assumes "offset_bounded (chan m)"
  shows "offset_bounded (chan (measure_VOLT e m))"
proof -
  obtain u m1 where a: "auto_frequency e m = (u, m1)" by (cases "auto_frequency e m")
  then have "m1 = snd (auto_frequency e m)" by simp
  with assms have b: "offset_bounded (chan m1)" by (simp add: offset_bounded_auto_frequency)
  show ?thesis
    using a b offset_bounded_correct_frequency[of "chan m1"]
    by (simp add: measure_VOLT_def Let_def offset_bounded_store_and_advance)
qed

lemma offset_bounded_measure_LAST:
  "offset_bounded (chan (measure_LAST e m)) = offset_bounded (chan m)"
  by (rule offset_bounded_cong) (simp_all add: measure_LAST_def Let_def)

lemma offset_bounded_measure:
  assumes "offset_bounded (chan m)"
  shows "offset_bounded (chan (measure_frequency_and_calc_error e m))"
proof -
  have "offset_bounded ((chan m)\<lparr>autotuner_step_' := DAC_VOLT_0_ARM, autotuner_' := False\<rparr>)"
    using assms by (simp add: offset_bounded_def)
  with assms show ?thesis
    by (simp add: measure_frequency_and_calc_error_def Let_def offset_bounded_measure_BASELINE
        offset_bounded_measure_VOLT offset_bounded_measure_LAST)
qed

lemma offset_bounded_F1:
  "offset_bounded c \<Longrightarrow> offset_bounded (c\<lparr>F_correction_factor_' := 1\<rparr>)"
  by (simp add: offset_bounded_def)

lemma offset_bounded_Update:
  assumes "offset_bounded (chan m)"
  shows "offset_bounded (chan (Update e m))"
proof (cases "autotuner_' (chan m)")
  case True
  have "offset_bounded (chan (autotune_updateDAC e m))"
    using assms offset_bounded_F1[OF assms]
    by (simp add: autotune_updateDAC_def Let_def offset_bounded_auto_frequency)
  with True show ?thesis
    by (simp add: Update_def Let_def offset_bounded_def)
next
  case False
  then show ?thesis using assms
    by (simp add: Update_def Let_def offset_bounded_def split: prod.splits if_splits)
qed

lemma offset_bounded_ISR:
  "offset_bounded (chan m) \<Longrightarrow> offset_bounded (chan (ISR e m))"
  by (simp add: ISR_def Let_def offset_bounded_measure offset_bounded_Update)

lemma offset_bounded_tick:
  "offset_bounded (chan m) \<Longrightarrow> offset_bounded (chan (tick e rs m))"
  by (simp add: tick_def offset_bounded_ISR)

lemma offset_bounded_run:
  "offset_bounded (chan m) \<Longrightarrow> offset_bounded (chan (run e rss m))"
  by (induction rss arbitrary: m) (simp_all add: run_def offset_bounded_tick)

lemma offset_bounded_abs:
  assumes "offset_bounded c"
  shows "\<bar>sint (auto_DAC_offset_error_' c)\<bar> \<le> 382755"
proof -
  from assms consider
      "auto_num_passes_' c \<le> MAX_NUM_PASSES + 1"
      "\<bar>sint (auto_DAC_offset_error_' c)\<bar> \<le> 255 * uint (auto_num_passes_' c)"
    | "\<bar>sint (auto_DAC_offset_error_' c)\<bar> \<le> 255 * 1501"
    by (auto simp: offset_bounded_def)
  then show ?thesis
  proof cases
    case 1
    from 1(1) have "uint (auto_num_passes_' c) \<le> 1501"
      by (simp add: MAX_NUM_PASSES_def word_le_def)
    with 1(2) show ?thesis by auto
  next
    case 2
    then show ?thesis by simp
  qed
qed

text \<open>
  C1 (as amended). From a freshly reset step (\<open>auto_reset_step\<close>), whatever the meter
  delivers and however long the run, the signed correction \<open>auto_DAC_offset_error_\<close>
  stays within \<open>255 * 1501 = 382755\<close> in absolute value: each of the at most
  \<open>MAX_NUM_PASSES + 1\<close> correcting emits of a step moves it by at most \<open>0xFF\<close>.
  Nothing in the code clamps it to 509.
\<close>

theorem offset_error_bounded:
  "\<bar>sint (auto_DAC_offset_error_' (chan (run e rss (m\<lparr>chan := auto_reset_step c\<rparr>))))\<bar>
     \<le> 255 * 1501"
  using offset_bounded_abs[OF offset_bounded_run[of "m\<lparr>chan := auto_reset_step c\<rparr>" e rss]]
  by (simp add: offset_bounded_reset)


subsection \<open>Evaluating concrete machines\<close>

lemma upt_11: "[0 ..< 11] = [0, 1, 2, 3, 4, 5, 6, 7, 8, 9, 10]"
  by (simp add: upt_conv_Cons)

lemma upt_10: "[0 ..< 10] = [0, 1, 2, 3, 4, 5, 6, 7, 8, 9]"
  by (simp add: upt_conv_Cons)

lemma boot_chan:
  "chan boot =
     \<lparr>values_' = InitDefaults, rate_phase_' = 0, mod_offset_' = 0, last_pitch_' = 0,
      autotuner_' = False, autotuner_step_' = 0, auto_DAC_offset_error_' = 0,
      auto_frequency_' = 0, auto_target_frequencies_' = [0, 0, 0, 0, 0, 0, 0, 0, 0, 0, 0],
      auto_calibration_data_' = [0, 0, 0, 0, 0, 0, 0, 0, 0, 0, 0], auto_last_frequency_' = 0,
      auto_next_step_' = False, auto_error_' = False, auto_ready_' = False,
      autotune_completed_' = False, auto_freq_sum_' = 0, auto_freq_count_' = 0,
      ticks_since_last_freq_' = 0, auto_num_passes_' = 0, F_correction_factor_' = 0xFF,
      correction_direction_' = False, correction_cnt_positive_' = 0,
      correction_cnt_negative_' = 0, octaves_cnt_' = 0, dac_channel_' = DAC_CHANNEL_A,
      history_' = [0, 0, 0, 0, 0, 0, 0, 0, 0, 0]\<rparr>"
  by (simp add: boot_def Init_def zero_channel_def reset_calibration_data_def OCTAVES_def
      kHistoryDepth_def history_Init_def DAC_VOLT_0_ARM_def upt_11 eval_nat_numeral)

lemma boot_rest: "dac boot = dac0" "FreqMeasure boot = []"
  by (simp_all add: boot_def)

lemmas eval_defs =
  boot_chan boot_rest env0_def dac0_def const_defs step_defs Let_def upt_10
  auto_frequency_def history_Push_def history_Read_def history_sum_def target_table_def
  auto_reset_step_def store_and_advance_def correct_frequency_def
  measure_BASELINE_def measure_VOLT_def measure_LAST_def measure_frequency_and_calc_error_def
  DAC_set_def set_auto_channel_calibration_data_def set_default_channel_calibration_data_def
  update_auto_channel_calibration_data_def

text \<open>The witness of C7: the last call of the commit step.\<close>

theorem done_entered_witness:
  "autotuner_step_' (chan commit_end) \<noteq> AUTO_CALIBRATION_STEP_LAST + 1
   \<and> autotuner_step_' (chan (measure_frequency_and_calc_error env0 commit_end))
       = AUTO_CALIBRATION_STEP_LAST + 1
   \<and> autotune_completed_' (chan (measure_frequency_and_calc_error env0 commit_end))
   \<and> calibration_data_used (dac (measure_frequency_and_calc_error env0 commit_end))
        (dac_channel_' (chan (measure_frequency_and_calc_error env0 commit_end))) = Auto"
proof -
  have h1: "autotuner_step_' (chan commit_end) \<noteq> AUTO_CALIBRATION_STEP_LAST + 1"
    and h2: "autotuner_step_' (chan (measure_frequency_and_calc_error env0 commit_end))
       = AUTO_CALIBRATION_STEP_LAST + 1"
    by (simp_all add: commit_end_def eval_defs)
  from done_entered[OF h1 h2] h1 h2 show ?thesis by simp
qed

subsection \<open>The doubling check\<close>

lemma measure_VOLT_advance:
  assumes "auto_frequency e m = (True, m1)" "MAX_NUM_PASSES < auto_num_passes_' (chan m1)"
  shows "measure_VOLT e m = m1\<lparr>chan := store_and_advance (chan m1)\<rparr>"
  using assms by (simp add: measure_VOLT_def)

lemma measure_VOLT_correct:
  assumes "auto_frequency e m = (True, m1)" "\<not> MAX_NUM_PASSES < auto_num_passes_' (chan m1)"
  shows "measure_VOLT e m = m1\<lparr>chan := correct_frequency (chan m1)\<rparr>"
  using assms by (simp add: measure_VOLT_def)

lemma after_2m_is_volt:
  "DAC_VOLT_2m < s \<Longrightarrow> DAC_VOLT_3m \<le> s"
  by (simp add: step_defs word_le_nat_alt word_less_nat_alt)








subsection \<open>No signal\<close>

lemma auto_frequency_timeout:
  "ERROR_TIMEOUT < ticks_since_last_freq_' (chan m) \<Longrightarrow>
   auto_error_' (chan (snd (auto_frequency e m)))"
  by (simp add: auto_frequency_def Let_def split: list.splits)

lemma Update_ARM_timeout:
  assumes "autotuner_' (chan m)" "autotuner_step_' (chan m) = DAC_VOLT_0_ARM"
    "ERROR_TIMEOUT < ticks_since_last_freq_' (chan m)"
  shows "auto_error_' (chan (Update e m))" "autotuner_step_' (chan (Update e m)) = DAC_VOLT_0_ARM"
  using assms
    auto_frequency_timeout[of "m\<lparr>chan := (chan m)\<lparr>F_correction_factor_' := 1\<rparr>\<rparr>" e]
  by (simp_all add: Update_def autotune_updateDAC_def Let_def)

lemma arm_state:
  "autotuner_' (autotuner_arm 1 c)" "autotuner_step_' (autotuner_arm 1 c) = DAC_VOLT_0_ARM"
  "ticks_since_last_freq_' (autotuner_arm 1 c) = 0" "\<not> auto_error_' (autotuner_arm 1 c)"
  by (simp_all add: autotuner_arm_def reset_autotuner_def reset_calibration_data_eq DAC_VOLT_0_ARM_def)

text \<open>
  C10. \<open>auto_frequency\<close> sets \<open>auto_error_\<close> whenever \<open>ticks_since_last_freq_\<close>
  exceeds \<open>ERROR_TIMEOUT\<close>, whatever the step; \<open>Update\<close> calls it on every tick of
  an armed channel in step \<open>DAC_VOLT_0_ARM\<close>; so a channel that is armed and then sees
  no reading for more than 8193 ticks has the error latched while still in
  \<open>DAC_VOLT_0_ARM\<close>, before any run command.
\<close>

theorem no_signal_latches_in_ARM:
  "(ERROR_TIMEOUT < ticks_since_last_freq_' (chan m) \<longrightarrow>
      auto_error_' (chan (snd (auto_frequency e m))))
   \<and> (autotuner_' (chan m) \<and> autotuner_step_' (chan m) = DAC_VOLT_0_ARM
        \<and> ERROR_TIMEOUT < ticks_since_last_freq_' (chan m) \<longrightarrow>
      auto_error_' (chan (Update e m)) \<and> autotuner_step_' (chan (Update e m)) = DAC_VOLT_0_ARM)
   \<and> (8193 < n \<longrightarrow>
      auto_error_' (chan (run e (replicate n []) (m\<lparr>chan := autotuner_arm 1 (chan m), FreqMeasure := []\<rparr>)))
      \<and> autotuner_step_' (chan (run e (replicate n []) (m\<lparr>chan := autotuner_arm 1 (chan m), FreqMeasure := []\<rparr>)))
          = DAC_VOLT_0_ARM
      \<and> autotuner_' (chan (run e (replicate n []) (m\<lparr>chan := autotuner_arm 1 (chan m), FreqMeasure := []\<rparr>))))"
  using silent_ARM_run[of "m\<lparr>chan := autotuner_arm 1 (chan m), FreqMeasure := []\<rparr>" e n]
  by (auto simp add: auto_frequency_timeout Update_ARM_timeout arm_state)

theorem no_signal_latches_in_ARM_witness:
  "ERROR_TIMEOUT < ticks_since_last_freq_' (chan late)
   \<and> autotuner_' (chan late) \<and> autotuner_step_' (chan late) = DAC_VOLT_0_ARM
   \<and> (8193 :: nat) < 8194
   \<and> auto_error_' (chan (snd (auto_frequency env0 late)))
   \<and> auto_error_' (chan (Update env0 late))
   \<and> autotuner_step_' (chan (Update env0 late)) = DAC_VOLT_0_ARM
   \<and> auto_error_' (chan (run env0 (replicate 8194 [])
         (late\<lparr>chan := autotuner_arm 1 (chan late), FreqMeasure := []\<rparr>)))
   \<and> autotuner_step_' (chan (run env0 (replicate 8194 [])
         (late\<lparr>chan := autotuner_arm 1 (chan late), FreqMeasure := []\<rparr>))) = DAC_VOLT_0_ARM"
proof -
  have h: "ERROR_TIMEOUT < ticks_since_last_freq_' (chan late)" "autotuner_' (chan late)"
    "autotuner_step_' (chan late) = DAC_VOLT_0_ARM"
    by (simp_all add: late_def armed_def arm_state const_defs)
  have n: "(8193 :: nat) < 8194" by simp
  from no_signal_latches_in_ARM[where m = late and e = env0 and n = 8194] h n
  show ?thesis by simp
qed


subsection \<open>The halving factor\<close>

lemma observe_keeps [simp]:
  "step_target (observe f c) = step_target c"
  "autotuner_step_' (observe f c) = autotuner_step_' c"
  "auto_target_frequencies_' (observe f c) = auto_target_frequencies_' c"
  by (simp_all add: observe_def correct_frequency_def step_target_def Let_def)

lemma observe_direction:
  "f \<noteq> step_target c \<Longrightarrow> correction_direction_' (observe f c) = (f < step_target c)"
  by (auto simp add: observe_def correct_frequency_def step_target_def Let_def)

lemma observe_turn:
  "f \<noteq> step_target c \<Longrightarrow> (f < step_target c) \<noteq> correction_direction_' c \<Longrightarrow>
   F_correction_factor_' (observe f c) = drop_bit 1 (F_correction_factor_' c) OR 1"
  by (auto simp add: observe_def correct_frequency_def step_target_def Let_def)

lemma observe_same:
  "(f < step_target c) = correction_direction_' c \<or> f = step_target c \<Longrightarrow>
   F_correction_factor_' (observe f c) = F_correction_factor_' c"
  by (auto simp add: observe_def correct_frequency_def step_target_def Let_def)

lemma halve_word:
  fixes F :: "16 word"
  assumes "F \<noteq> 0"
  shows "(if 1 < F then drop_bit 1 F OR 1 < F else drop_bit 1 F OR 1 = 1)"
    and "drop_bit 1 F OR 1 \<noteq> 0"
proof -
  from assms have p: "0 < unat F" by (simp add: unat_gt_0)
  show "(if 1 < F then drop_bit 1 F OR 1 < F else drop_bit 1 F OR 1 = 1)"
  proof (cases "1 < F")
    case True
    then have "1 < unat F" by (simp add: word_less_nat_alt)
    from halve_less[OF this] True show ?thesis by (simp add: word_less_nat_alt)
  next
    case False
    with p have "unat F = 1" by (simp add: word_less_nat_alt)
    then have "unat F = unat (1 :: 16 word)" by simp
    then have "F = 1" by (simp only: word_unat_eq_iff)
    with False show ?thesis by simp
  qed
  from halve_pos[of F] show "drop_bit 1 F OR 1 \<noteq> 0"
    by (metis less_not_refl unat_0)
qed

lemma turns_decrease:
  assumes "alternating t fs" "step_target c = t" "F_correction_factor_' c \<noteq> 0"
    and "fs \<noteq> [] \<longrightarrow> (hd fs < t) \<noteq> correction_direction_' c"
  shows "decreasing_to_1 (F_correction_factor_' c # F_values c fs)"
  using assms
proof (induction fs arbitrary: c)
  case Nil
  then show ?case by simp
next
  case (Cons f fs)
  let ?c = "observe f c"
  from Cons.prems(1) have ft: "f \<noteq> t" by (cases fs) simp_all
  with Cons.prems have turn: "F_correction_factor_' ?c = drop_bit 1 (F_correction_factor_' c) OR 1"
    by (simp add: observe_turn)
  have dir: "correction_direction_' ?c = (f < t)"
    using ft Cons.prems(2) by (simp add: observe_direction)
  have nz: "F_correction_factor_' ?c \<noteq> 0"
    unfolding turn by (rule halve_word(2)[OF Cons.prems(3)])
  have alt: "alternating t fs" using Cons.prems(1) by (cases fs) simp_all
  have nxt: "fs \<noteq> [] \<longrightarrow> (hd fs < t) \<noteq> correction_direction_' ?c"
    using Cons.prems(1) dir by (cases fs) auto
  have "decreasing_to_1 (F_correction_factor_' ?c # F_values ?c fs)"
    using Cons.IH[OF alt _ nz nxt] Cons.prems(2) by simp
  with halve_word(1)[OF Cons.prems(3)] turn show ?case by (simp del: One_nat_def)
qed


lemma decreasing_to_1_tl: "decreasing_to_1 (a # xs) \<Longrightarrow> decreasing_to_1 xs"
  by (cases xs) simp_all

lemma reset_step_scratch [simp]:
  "F_correction_factor_' (auto_reset_step c) = 0xFF"
  "correction_direction_' (auto_reset_step c) = False"
  "step_target (auto_reset_step c) = step_target c"
  by (simp_all add: auto_reset_step_def step_target_def)


lemma at_3m_target: "step_target at_3m = 12.5"
  by (simp add: at_3m_def step_target_def boot_chan target_table_def step_defs)

lemma first_observe:
  "f \<noteq> step_target c \<Longrightarrow>
   F_correction_factor_' (observe f (auto_reset_step c)) =
     (if f < step_target c then 0x7F else 0xFF)"
  using observe_turn[of f "auto_reset_step c"] observe_same[of f "auto_reset_step c"]
  by (cases "f < step_target c") simp_all



lemma measure_VOLT_observe:
  assumes "auto_frequency e m = (True, m1)" "\<not> MAX_NUM_PASSES < auto_num_passes_' (chan m1)"
  shows "chan (measure_VOLT e m) = observe (auto_frequency_' (chan m1)) (chan m1)"
  using assms by (simp add: measure_VOLT_correct observe_def)


subsection \<open>The baseline step\<close>

lemma autotune_updateDAC_keeps:
  "autotuner_step_' (chan m) \<noteq> DAC_VOLT_0_ARM \<Longrightarrow> chan (autotune_updateDAC e m) = chan m"
  "autotuner_step_' (chan m) \<noteq> DAC_VOLT_0_ARM \<Longrightarrow>
     FreqMeasure (autotune_updateDAC e m) = FreqMeasure m"
  by (simp_all add: autotune_updateDAC_def Let_def)

lemma Update_active:
  assumes "autotuner_' (chan m)" "autotuner_step_' (chan m) \<noteq> DAC_VOLT_0_ARM"
  shows "chan (Update e m) =
           (chan m)\<lparr>ticks_since_last_freq_' := ticks_since_last_freq_' (chan m) + 1\<rparr>"
    and "FreqMeasure (Update e m) = FreqMeasure m"
  using assms by (simp_all add: Update_def Let_def autotune_updateDAC_keeps)

lemma tick_active:
  assumes "autotuner_' (chan m)" "autotuner_step_' (chan m) \<noteq> DAC_VOLT_0_ARM"
  shows "tick e rs m =
     measure_frequency_and_calc_error e (Update e (m\<lparr>FreqMeasure := FreqMeasure m @ rs\<rparr>))"
  using assms
  by (simp add: tick_def ISR_def Let_def autotuner_active_iff Update_active DAC_VOLT_0_ARM_def)

lemma tick_BASELINE:
  assumes "autotuner_' (chan m)" "autotuner_step_' (chan m) = DAC_VOLT_0_BASELINE"
  shows "tick e rs m = measure_BASELINE e (Update e (m\<lparr>FreqMeasure := FreqMeasure m @ rs\<rparr>))"
  using assms
  by (simp add: tick_active measure_at_BASELINE Update_active step_defs)

lemma tick_BASELINE_quiet:
  assumes "autotuner_' (chan m)" "autotuner_step_' (chan m) = DAC_VOLT_0_BASELINE"
    "\<not> emit_at e rs m"
  shows "autotuner_' (chan (tick e rs m))"
    "autotuner_step_' (chan (tick e rs m)) = DAC_VOLT_0_BASELINE"
    "auto_num_passes_' (chan (tick e rs m)) = auto_num_passes_' (chan m)"
    "auto_target_frequencies_' (chan (tick e rs m)) = auto_target_frequencies_' (chan m)"
proof -
  let ?m1 = "Update e (m\<lparr>FreqMeasure := FreqMeasure m @ rs\<rparr>)"
  obtain u m2 where a: "auto_frequency e ?m1 = (u, m2)" by (cases "auto_frequency e ?m1")
  with assms(3) have u: "\<not> u" by (simp add: emit_at_def)
  from a have k: "m2 = snd (auto_frequency e ?m1)" by simp
  have t: "tick e rs m = m2"
    unfolding tick_BASELINE[OF assms(1,2)] using a u by (simp add: measure_BASELINE_def)
  show "autotuner_' (chan (tick e rs m))"
    "autotuner_step_' (chan (tick e rs m)) = DAC_VOLT_0_BASELINE"
    "auto_num_passes_' (chan (tick e rs m)) = auto_num_passes_' (chan m)"
    "auto_target_frequencies_' (chan (tick e rs m)) = auto_target_frequencies_' (chan m)"
    unfolding t k using assms(1,2) by (simp_all add: Update_active step_defs)
qed

lemma tick_BASELINE_count:
  assumes "autotuner_' (chan m)" "autotuner_step_' (chan m) = DAC_VOLT_0_BASELINE"
    "emit_at e rs m" "\<not> word_of_nat kHistoryDepth < auto_num_passes_' (chan m)"
  shows "autotuner_' (chan (tick e rs m))"
    "autotuner_step_' (chan (tick e rs m)) = DAC_VOLT_0_BASELINE"
    "auto_num_passes_' (chan (tick e rs m)) = auto_num_passes_' (chan m) + 1"
    "auto_target_frequencies_' (chan (tick e rs m)) = auto_target_frequencies_' (chan m)"
proof -
  let ?m1 = "Update e (m\<lparr>FreqMeasure := FreqMeasure m @ rs\<rparr>)"
  obtain u m2 where a: "auto_frequency e ?m1 = (u, m2)" by (cases "auto_frequency e ?m1")
  with assms(3) have u: "u" by (simp add: emit_at_def)
  from a have k: "m2 = snd (auto_frequency e ?m1)" by simp
  have p: "auto_num_passes_' (chan m2) = auto_num_passes_' (chan m)"
    unfolding k using assms(1,2) by (simp add: Update_active step_defs)
  have t: "tick e rs m = m2\<lparr>chan := (chan m2)\<lparr>auto_num_passes_' := auto_num_passes_' (chan m2) + 1\<rparr>\<rparr>"
    unfolding tick_BASELINE[OF assms(1,2)] using a u p assms(4)
    by (simp add: measure_BASELINE_def)
  show "autotuner_' (chan (tick e rs m))"
    "autotuner_step_' (chan (tick e rs m)) = DAC_VOLT_0_BASELINE"
    "auto_num_passes_' (chan (tick e rs m)) = auto_num_passes_' (chan m) + 1"
    "auto_target_frequencies_' (chan (tick e rs m)) = auto_target_frequencies_' (chan m)"
    unfolding t k using assms(1,2) by (simp_all add: Update_active step_defs)
qed

lemma tick_BASELINE_advance:
  assumes "autotuner_' (chan m)" "autotuner_step_' (chan m) = DAC_VOLT_0_BASELINE"
    "emit_at e rs m" "word_of_nat kHistoryDepth < auto_num_passes_' (chan m)"
  shows "autotuner_step_' (chan (tick e rs m)) = DAC_VOLT_3m"
    "auto_last_frequency_' (chan (tick e rs m)) = auto_frequency_' (chan (tick e rs m))"
    "auto_target_frequencies_' (chan (tick e rs m)) =
       target_table 0
         ((auto_frequency_' (chan (tick e rs m)) + history_sum (history_' (chan (tick e rs m)))) / 11)"
    "auto_num_passes_' (chan (tick e rs m)) = 0"
    "auto_DAC_offset_error_' (chan (tick e rs m)) = 0"
    "F_correction_factor_' (chan (tick e rs m)) = 0xFF"
proof -
  let ?m1 = "Update e (m\<lparr>FreqMeasure := FreqMeasure m @ rs\<rparr>)"
  obtain u m2 where a: "auto_frequency e ?m1 = (u, m2)" by (cases "auto_frequency e ?m1")
  with assms(3) have u: "u" by (simp add: emit_at_def)
  from a have k: "m2 = snd (auto_frequency e ?m1)" by simp
  have p: "auto_num_passes_' (chan m2) = auto_num_passes_' (chan m)"
    "autotuner_step_' (chan m2) = DAC_VOLT_0_BASELINE"
    unfolding k using assms(1,2) by (simp_all add: Update_active step_defs)
  have t: "chan (tick e rs m) =
     (auto_reset_step
        ((chan m2)\<lparr>auto_last_frequency_' := auto_frequency_' (chan m2),
                   auto_target_frequencies_' :=
                     target_table 0
                       ((auto_frequency_' (chan m2) + history_sum (history_' (chan m2))) / 11)\<rparr>))
     \<lparr>autotuner_step_' := DAC_VOLT_3m\<rparr>"
    unfolding tick_BASELINE[OF assms(1,2)] using a u p assms(4)
    by (simp add: measure_BASELINE_def Let_def history_Read_def kHistoryDepth_def
        get_voltage_scaling_def BUCHLA_SUPPORT_def auto_reset_step_def step_defs)
  show "autotuner_step_' (chan (tick e rs m)) = DAC_VOLT_3m"
    "auto_last_frequency_' (chan (tick e rs m)) = auto_frequency_' (chan (tick e rs m))"
    "auto_target_frequencies_' (chan (tick e rs m)) =
       target_table 0
         ((auto_frequency_' (chan (tick e rs m)) + history_sum (history_' (chan (tick e rs m)))) / 11)"
    "auto_num_passes_' (chan (tick e rs m)) = 0"
    "auto_DAC_offset_error_' (chan (tick e rs m)) = 0"
    "F_correction_factor_' (chan (tick e rs m)) = 0xFF"
    unfolding t by (simp_all add: auto_reset_step_def)
qed

lemma baseline_counts:
  assumes "autotuner_' (chan m)" "autotuner_step_' (chan m) = DAC_VOLT_0_BASELINE"
    "unat (auto_num_passes_' (chan m)) + emits e rss m \<le> 11"
  shows "autotuner_' (chan (run e rss m))
       \<and> autotuner_step_' (chan (run e rss m)) = DAC_VOLT_0_BASELINE
       \<and> unat (auto_num_passes_' (chan (run e rss m))) = unat (auto_num_passes_' (chan m)) + emits e rss m
       \<and> auto_target_frequencies_' (chan (run e rss m)) = auto_target_frequencies_' (chan m)"
  using assms
proof (induction rss arbitrary: m)
  case Nil
  then show ?case by simp
next
  case (Cons rs rss)
  show ?case
  proof (cases "emit_at e rs m")
    case False
    note q = tick_BASELINE_quiet[OF Cons.prems(1,2) False]
    from Cons.prems(3) False q(3)
    have "unat (auto_num_passes_' (chan (tick e rs m))) + emits e rss (tick e rs m) \<le> 11"
      by simp
    from Cons.IH[OF q(1,2) this] q False show ?thesis by simp
  next
    case True
    with Cons.prems(3) have p10: "unat (auto_num_passes_' (chan m)) \<le> 10" by simp
    then have n: "\<not> word_of_nat kHistoryDepth < auto_num_passes_' (chan m)"
      by (simp add: kHistoryDepth_def word_less_nat_alt)
    note q = tick_BASELINE_count[OF Cons.prems(1,2) True n]
    from p10 have s: "unat (auto_num_passes_' (chan m) + 1) = Suc (unat (auto_num_passes_' (chan m)))"
      by (simp add: unat_passes_Suc)
    from Cons.prems(3) True q(3) s
    have "unat (auto_num_passes_' (chan (tick e rs m))) + emits e rss (tick e rs m) \<le> 11"
      by simp
    from Cons.IH[OF q(1,2) this] q True s show ?thesis by simp
  qed
qed



subsection \<open>Input in cycles\<close>

lemma emits_append: "emits e (rss @ rss') m = emits e rss m + emits e rss' (run e rss m)"
  by (induction rss arbitrary: m) simp_all

lemma step_range_cases:
  assumes "DAC_VOLT_0_BASELINE \<le> s" "s \<le> DAC_VOLT_6"
  shows "s = DAC_VOLT_0_BASELINE \<or> (DAC_VOLT_3m \<le> s \<and> s \<le> DAC_VOLT_6)"
proof -
  from assms have "1 \<le> unat s" "unat s \<le> 11"
    by (simp_all add: step_defs word_le_nat_alt)
  then have "unat s = unat (1 :: 8 word) \<or> (2 \<le> unat s \<and> unat s \<le> 11)" by auto
  then show ?thesis
    by (simp only: word_unat_eq_iff volt_step_unat DAC_VOLT_0_BASELINE_def)
qed

lemma step_range_not_ARM:
  assumes "DAC_VOLT_0_BASELINE \<le> s"
  shows "s \<noteq> DAC_VOLT_0_ARM"
  using assms by (auto simp add: step_defs word_le_nat_alt)

lemma measure_idle:
  assumes "DAC_VOLT_0_BASELINE \<le> autotuner_step_' (chan m)" "autotuner_step_' (chan m) \<le> DAC_VOLT_6"
    "\<not> fst (auto_frequency e m)"
  shows "measure_frequency_and_calc_error e m = snd (auto_frequency e m)"
proof -
  obtain u m1 where a: "auto_frequency e m = (u, m1)" by (cases "auto_frequency e m")
  with assms(3) have "\<not> u" by simp
  with a step_range_cases[OF assms(1,2)] show ?thesis
    by (auto simp add: measure_at_BASELINE measure_at_VOLT measure_BASELINE_def measure_VOLT_def)
qed

lemma not_timed_out:
  "unat (t :: 32 word) < 8192 \<Longrightarrow> \<not> ERROR_TIMEOUT < t + 1"
  by (simp add: const_defs word_less_nat_alt unat_word_ariths)

lemma tick_quiet:
  assumes "autotuner_' (chan m)" "DAC_VOLT_0_BASELINE \<le> autotuner_step_' (chan m)"
    "autotuner_step_' (chan m) \<le> DAC_VOLT_6" "FreqMeasure m = []"
    "unat (ticks_since_last_freq_' (chan m)) < 8192"
  shows "chan (tick e [] m) =
           (chan m)\<lparr>ticks_since_last_freq_' := ticks_since_last_freq_' (chan m) + 1\<rparr>"
    and "FreqMeasure (tick e [] m) = []"
    and "\<not> emit_at e [] m"
proof -
  let ?M = "Update e (m\<lparr>FreqMeasure := FreqMeasure m @ []\<rparr>)"
  note na = step_range_not_ARM[OF assms(2)]
  have M: "chan ?M = (chan m)\<lparr>ticks_since_last_freq_' := ticks_since_last_freq_' (chan m) + 1\<rparr>"
    "FreqMeasure ?M = []"
    using assms(1,4) na by (simp_all add: Update_active)
  have af: "auto_frequency e ?M = (False, ?M)"
    using M not_timed_out[OF assms(5)] by (simp add: auto_frequency_Nil)
  then show "\<not> emit_at e [] m" by (simp add: emit_at_def)
  have "tick e [] m = measure_frequency_and_calc_error e ?M"
    using assms(1) na by (simp add: tick_active)
  also have "\<dots> = ?M"
    using measure_idle[of ?M e] M assms(2,3) af by simp
  finally have t: "tick e [] m = ?M" .
  show "chan (tick e [] m) =
           (chan m)\<lparr>ticks_since_last_freq_' := ticks_since_last_freq_' (chan m) + 1\<rparr>"
    "FreqMeasure (tick e [] m) = []"
    unfolding t by (rule M)+
qed

lemma run_quiet:
  assumes "autotuner_' (chan m)" "DAC_VOLT_0_BASELINE \<le> autotuner_step_' (chan m)"
    "autotuner_step_' (chan m) \<le> DAC_VOLT_6" "FreqMeasure m = []"
    "unat (ticks_since_last_freq_' (chan m)) + n \<le> 8192"
  shows "chan (run e (replicate n []) m) =
           (chan m)\<lparr>ticks_since_last_freq_' := ticks_since_last_freq_' (chan m) + word_of_nat n\<rparr>
       \<and> FreqMeasure (run e (replicate n []) m) = []
       \<and> emits e (replicate n []) m = 0"
  using assms
proof (induction n arbitrary: m)
  case 0
  then show ?case by simp
next
  case (Suc n)
  from Suc.prems(5) have lt: "unat (ticks_since_last_freq_' (chan m)) < 8192" by simp
  note q = tick_quiet[OF Suc.prems(1-4) lt]
  from lt have u: "unat (ticks_since_last_freq_' (chan m) + 1) = Suc (unat (ticks_since_last_freq_' (chan m)))"
    by (simp add: unat_word_ariths)
  have p: "autotuner_' (chan (tick e [] m))"
    "DAC_VOLT_0_BASELINE \<le> autotuner_step_' (chan (tick e [] m))"
    "autotuner_step_' (chan (tick e [] m)) \<le> DAC_VOLT_6"
    "unat (ticks_since_last_freq_' (chan (tick e [] m))) + n \<le> 8192"
    using Suc.prems u by (simp_all add: q(1))
  from Suc.IH[OF p(1-3) q(2) p(4)] q show ?case
    by (simp add: add.assoc)
qed


lemma emit_tick:
  assumes "autotuner_' (chan m)" "DAC_VOLT_0_BASELINE \<le> autotuner_step_' (chan m)"
    "FreqMeasure m = []" "ticks_since_last_freq_' (chan m) = 128"
    "auto_freq_sum_' (chan m) = 0" "auto_freq_count_' (chan m) = 0"
    "F_correction_factor_' (chan m) \<noteq> 1"
  shows "emit_at e [r] m"
    and "chan (snd (auto_frequency e (Update e (m\<lparr>FreqMeasure := FreqMeasure m @ [r]\<rparr>)))) =
      (chan m)\<lparr>ticks_since_last_freq_' := 0, auto_freq_sum_' := 0, auto_freq_count_' := 0,
               auto_frequency_' := countToFrequency e r,
               history_' := history_Push (countToFrequency e r) (history_' (chan m)),
               auto_ready_' := True\<rparr>"
    and "FreqMeasure (snd (auto_frequency e (Update e (m\<lparr>FreqMeasure := FreqMeasure m @ [r]\<rparr>)))) = []"
proof -
  let ?M = "Update e (m\<lparr>FreqMeasure := FreqMeasure m @ [r]\<rparr>)"
  note na = step_range_not_ARM[OF assms(2)]
  have M: "chan ?M = (chan m)\<lparr>ticks_since_last_freq_' := 129\<rparr>" "FreqMeasure ?M = [r]"
    using assms(1,3,4) na by (simp_all add: Update_active)
  show "emit_at e [r] m"
    unfolding emit_at_def using M assms(7) by (simp add: auto_frequency_def Let_def const_defs)
  show "chan (snd (auto_frequency e ?M)) =
      (chan m)\<lparr>ticks_since_last_freq_' := 0, auto_freq_sum_' := 0, auto_freq_count_' := 0,
               auto_frequency_' := countToFrequency e r,
               history_' := history_Push (countToFrequency e r) (history_' (chan m)),
               auto_ready_' := True\<rparr>"
    using M assms(5,6,7) by (simp add: auto_frequency_def Let_def const_defs)
  show "FreqMeasure (snd (auto_frequency e ?M)) = []"
    using M assms(7) by (simp add: auto_frequency_def Let_def const_defs)
qed

lemma cycle_to_emit:
  assumes "between_emits m" "DAC_VOLT_0_BASELINE \<le> autotuner_step_' (chan m)"
    "autotuner_step_' (chan m) \<le> DAC_VOLT_6"
  shows "run e (cycle r) m = tick e [r] (run e (replicate 128 []) m)"
    and "chan (run e (replicate 128 []) m) = (chan m)\<lparr>ticks_since_last_freq_' := 128\<rparr>"
    and "FreqMeasure (run e (replicate 128 []) m) = []"
    and "emits e (cycle r) m = (if emit_at e [r] (run e (replicate 128 []) m) then 1 else 0)"
proof -
  from assms(1) have b: "autotuner_' (chan m)" "FreqMeasure m = []"
    "ticks_since_last_freq_' (chan m) = 0"
    by (simp_all add: between_emits_def)
  then have "unat (ticks_since_last_freq_' (chan m)) + 128 \<le> 8192" by simp
  from run_quiet[OF b(1) assms(2,3) b(2) this, of e] b(3)
  show "chan (run e (replicate 128 []) m) = (chan m)\<lparr>ticks_since_last_freq_' := 128\<rparr>"
    and "FreqMeasure (run e (replicate 128 []) m) = []"
    and "emits e (cycle r) m = (if emit_at e [r] (run e (replicate 128 []) m) then 1 else 0)"
    by (simp_all add: cycle_def emits_append)
  show "run e (cycle r) m = tick e [r] (run e (replicate 128 []) m)"
    by (simp add: cycle_def run_snoc)
qed

lemma baseline_cycle:
  assumes "between_emits m" "autotuner_step_' (chan m) = DAC_VOLT_0_BASELINE"
    "unat (auto_num_passes_' (chan m)) \<le> 10"
  shows "chan (run e (cycle r) m) =
      (chan m)\<lparr>ticks_since_last_freq_' := 0, auto_freq_sum_' := 0, auto_freq_count_' := 0,
               auto_frequency_' := countToFrequency e r,
               history_' := history_Push (countToFrequency e r) (history_' (chan m)),
               auto_ready_' := True,
               auto_num_passes_' := auto_num_passes_' (chan m) + 1\<rparr>"
    and "FreqMeasure (run e (cycle r) m) = []"
    and "emits e (cycle r) m = 1"
proof -
  let ?m' = "run e (replicate 128 []) m"
  let ?M = "Update e (?m'\<lparr>FreqMeasure := FreqMeasure ?m' @ [r]\<rparr>)"
  have rg: "DAC_VOLT_0_BASELINE \<le> autotuner_step_' (chan m)" "autotuner_step_' (chan m) \<le> DAC_VOLT_6"
    using assms(2) by (simp_all add: step_defs)
  note c = cycle_to_emit(1)[OF assms(1) rg, where e = e and r = r]
    cycle_to_emit(2)[OF assms(1) rg, where e = e]
    cycle_to_emit(3)[OF assms(1) rg, where e = e]
    cycle_to_emit(4)[OF assms(1) rg, where e = e and r = r]
  from assms(1) have b: "autotuner_' (chan m)" "auto_freq_sum_' (chan m) = 0"
    "auto_freq_count_' (chan m) = 0" "F_correction_factor_' (chan m) \<noteq> 1"
    by (simp_all add: between_emits_def)
  have pre: "autotuner_' (chan ?m')" "DAC_VOLT_0_BASELINE \<le> autotuner_step_' (chan ?m')"
    "ticks_since_last_freq_' (chan ?m') = 128" "auto_freq_sum_' (chan ?m') = 0"
    "auto_freq_count_' (chan ?m') = 0" "F_correction_factor_' (chan ?m') \<noteq> 1"
    "autotuner_step_' (chan ?m') = DAC_VOLT_0_BASELINE"
    using b rg assms(2) by (simp_all add: c(2))
  note et = emit_tick(1)[OF pre(1,2) c(3) pre(3-6), where e = e and r = r]
    emit_tick(2)[OF pre(1,2) c(3) pre(3-6), where e = e and r = r]
    emit_tick(3)[OF pre(1,2) c(3) pre(3-6), where e = e and r = r]
  from et(1) have af: "auto_frequency e ?M = (True, snd (auto_frequency e ?M))"
    by (cases "auto_frequency e ?M") (simp add: emit_at_def)
  have n: "\<not> word_of_nat kHistoryDepth < auto_num_passes_' (chan (snd (auto_frequency e ?M)))"
    using assms(3) by (simp add: et(2) c(2) kHistoryDepth_def word_less_nat_alt)
  have t: "run e (cycle r) m =
      (snd (auto_frequency e ?M))\<lparr>chan := (chan (snd (auto_frequency e ?M)))
          \<lparr>auto_num_passes_' := auto_num_passes_' (chan (snd (auto_frequency e ?M))) + 1\<rparr>\<rparr>"
    unfolding c(1) tick_BASELINE[OF pre(1,7)]
    using n by (subst measure_BASELINE_def, subst af) simp
  show "chan (run e (cycle r) m) =
      (chan m)\<lparr>ticks_since_last_freq_' := 0, auto_freq_sum_' := 0, auto_freq_count_' := 0,
               auto_frequency_' := countToFrequency e r,
               history_' := history_Push (countToFrequency e r) (history_' (chan m)),
               auto_ready_' := True,
               auto_num_passes_' := auto_num_passes_' (chan m) + 1\<rparr>"
    unfolding t by (simp add: et(2) c(2))
  show "FreqMeasure (run e (cycle r) m) = []"
    unfolding t by (simp add: et(3))
  show "emits e (cycle r) m = 1"
    using c(4) et(1) by simp
qed


lemma cycles_Suc: "cycles (Suc k) r = cycles k r @ cycle r"
  unfolding cycles_def by (induction k) simp_all

lemma baseline_cycles:
  assumes "between_emits m" "autotuner_step_' (chan m) = DAC_VOLT_0_BASELINE"
    "unat (auto_num_passes_' (chan m)) + k \<le> 10"
  shows "chan (run e (cycles (Suc k) r) m) =
      (chan m)\<lparr>ticks_since_last_freq_' := 0, auto_freq_sum_' := 0, auto_freq_count_' := 0,
               auto_frequency_' := countToFrequency e r,
               history_' := (history_Push (countToFrequency e r) ^^ Suc k) (history_' (chan m)),
               auto_ready_' := True,
               auto_num_passes_' := auto_num_passes_' (chan m) + word_of_nat (Suc k)\<rparr>
       \<and> FreqMeasure (run e (cycles (Suc k) r) m) = []
       \<and> emits e (cycles (Suc k) r) m = Suc k"
  using assms(3)
proof (induction k)
  case 0
  then have "unat (auto_num_passes_' (chan m)) \<le> 10" by simp
  from baseline_cycle[OF assms(1,2) this, of e r] show ?case
    by (simp add: cycles_def)
next
  case (Suc k)
  let ?m' = "run e (cycles (Suc k) r) m"
  from Suc have ih: "chan ?m' =
      (chan m)\<lparr>ticks_since_last_freq_' := 0, auto_freq_sum_' := 0, auto_freq_count_' := 0,
               auto_frequency_' := countToFrequency e r,
               history_' := (history_Push (countToFrequency e r) ^^ Suc k) (history_' (chan m)),
               auto_ready_' := True,
               auto_num_passes_' := auto_num_passes_' (chan m) + word_of_nat (Suc k)\<rparr>"
    "FreqMeasure ?m' = []" "emits e (cycles (Suc k) r) m = Suc k"
    by simp_all
  from assms(1) have b: "between_emits ?m'"
    by (simp add: between_emits_def ih)
  have st: "autotuner_step_' (chan ?m') = DAC_VOLT_0_BASELINE"
    using assms(2) by (simp add: ih)
  from Suc.prems have "unat (auto_num_passes_' (chan m) + word_of_nat (Suc k))
      = unat (auto_num_passes_' (chan m)) + Suc k"
    by (simp add: unat_word_ariths unat_of_nat)
  with Suc.prems have p: "unat (auto_num_passes_' (chan ?m')) \<le> 10"
    by (simp add: ih)
  note bc = baseline_cycle[OF b st p, of e r]
  have r: "run e (cycles (Suc (Suc k)) r) m = run e (cycle r) ?m'"
    by (simp only: cycles_Suc[of "Suc k"] run_append)
  have em: "emits e (cycles (Suc (Suc k)) r) m = Suc (Suc k)"
    by (simp only: cycles_Suc[of "Suc k"] emits_append ih(3) bc(3))
  show ?case
    unfolding r using bc(1,2) em r
    by (simp add: ih(1) add.assoc)
qed

lemma baseline_last_cycle:
  assumes "between_emits m" "autotuner_step_' (chan m) = DAC_VOLT_0_BASELINE"
    "10 < unat (auto_num_passes_' (chan m))"
  shows "chan (run e (cycle r) m) =
      (auto_reset_step
        ((chan m)\<lparr>ticks_since_last_freq_' := 0, auto_freq_sum_' := 0, auto_freq_count_' := 0,
                  auto_frequency_' := countToFrequency e r,
                  history_' := history_Push (countToFrequency e r) (history_' (chan m)),
                  auto_last_frequency_' := countToFrequency e r,
                  auto_target_frequencies_' :=
                    target_table 0
                      ((countToFrequency e r
                        + history_sum (history_Push (countToFrequency e r) (history_' (chan m)))) / 11)\<rparr>))
      \<lparr>autotuner_step_' := DAC_VOLT_3m\<rparr>"
    and "FreqMeasure (run e (cycle r) m) = []"
    and "emits e (cycle r) m = 1"
proof -
  let ?m' = "run e (replicate 128 []) m"
  let ?M = "Update e (?m'\<lparr>FreqMeasure := FreqMeasure ?m' @ [r]\<rparr>)"
  have rg: "DAC_VOLT_0_BASELINE \<le> autotuner_step_' (chan m)" "autotuner_step_' (chan m) \<le> DAC_VOLT_6"
    using assms(2) by (simp_all add: step_defs)
  note c = cycle_to_emit(1)[OF assms(1) rg, where e = e and r = r]
    cycle_to_emit(2)[OF assms(1) rg, where e = e]
    cycle_to_emit(3)[OF assms(1) rg, where e = e]
    cycle_to_emit(4)[OF assms(1) rg, where e = e and r = r]
  from assms(1) have b: "autotuner_' (chan m)" "auto_freq_sum_' (chan m) = 0"
    "auto_freq_count_' (chan m) = 0" "F_correction_factor_' (chan m) \<noteq> 1"
    by (simp_all add: between_emits_def)
  have pre: "autotuner_' (chan ?m')" "DAC_VOLT_0_BASELINE \<le> autotuner_step_' (chan ?m')"
    "ticks_since_last_freq_' (chan ?m') = 128" "auto_freq_sum_' (chan ?m') = 0"
    "auto_freq_count_' (chan ?m') = 0" "F_correction_factor_' (chan ?m') \<noteq> 1"
    "autotuner_step_' (chan ?m') = DAC_VOLT_0_BASELINE"
    using b rg assms(2) by (simp_all add: c(2))
  note et = emit_tick(1)[OF pre(1,2) c(3) pre(3-6), where e = e and r = r]
    emit_tick(2)[OF pre(1,2) c(3) pre(3-6), where e = e and r = r]
    emit_tick(3)[OF pre(1,2) c(3) pre(3-6), where e = e and r = r]
  from et(1) have af: "auto_frequency e ?M = (True, snd (auto_frequency e ?M))"
    by (cases "auto_frequency e ?M") (simp add: emit_at_def)
  have n: "word_of_nat kHistoryDepth < auto_num_passes_' (chan (snd (auto_frequency e ?M)))"
    using assms(3) by (simp add: et(2) c(2) kHistoryDepth_def word_less_nat_alt)
  have t: "run e (cycle r) m = measure_BASELINE e ?M"
    unfolding c(1) tick_BASELINE[OF pre(1,7)] ..
  show "chan (run e (cycle r) m) =
      (auto_reset_step
        ((chan m)\<lparr>ticks_since_last_freq_' := 0, auto_freq_sum_' := 0, auto_freq_count_' := 0,
                  auto_frequency_' := countToFrequency e r,
                  history_' := history_Push (countToFrequency e r) (history_' (chan m)),
                  auto_last_frequency_' := countToFrequency e r,
                  auto_target_frequencies_' :=
                    target_table 0
                      ((countToFrequency e r
                        + history_sum (history_Push (countToFrequency e r) (history_' (chan m)))) / 11)\<rparr>))
      \<lparr>autotuner_step_' := DAC_VOLT_3m\<rparr>"
    unfolding t using n assms(2)
    by (subst measure_BASELINE_def, subst af)
      (simp add: et(2) c(2) Let_def auto_reset_step_def history_Read_def kHistoryDepth_def
        get_voltage_scaling_def BUCHLA_SUPPORT_def step_defs)
  show "FreqMeasure (run e (cycle r) m) = []"
    unfolding t using n
    by (subst measure_BASELINE_def, subst af) (simp add: et(3) Let_def)
  show "emits e (cycle r) m = 1"
    using c(4) et(1) by simp
qed


lemma cycles_add: "cycles (a + b) r = cycles a r @ cycles b r"
  unfolding cycles_def by (induction a) simp_all

lemma tick_VOLT:
  assumes "autotuner_' (chan m)" "DAC_VOLT_3m \<le> autotuner_step_' (chan m)"
    "autotuner_step_' (chan m) \<le> DAC_VOLT_6"
  shows "tick e rs m = measure_VOLT e (Update e (m\<lparr>FreqMeasure := FreqMeasure m @ rs\<rparr>))"
  using assms volt_step_neq(1)[OF assms(2,3)]
  by (simp add: tick_active measure_at_VOLT Update_active DAC_VOLT_0_ARM_def)

lemma volt_cycle:
  assumes "between_emits m" "DAC_VOLT_3m \<le> autotuner_step_' (chan m)"
    "autotuner_step_' (chan m) \<le> DAC_VOLT_6"
    "unat (auto_num_passes_' (chan m)) \<le> 1500"
  shows "chan (run e (cycle r) m) =
      correct_frequency
        ((chan m)\<lparr>ticks_since_last_freq_' := 0, auto_freq_sum_' := 0, auto_freq_count_' := 0,
                  auto_frequency_' := countToFrequency e r,
                  history_' := history_Push (countToFrequency e r) (history_' (chan m)),
                  auto_ready_' := True\<rparr>)"
    and "FreqMeasure (run e (cycle r) m) = []"
    and "emits e (cycle r) m = 1"
proof -
  let ?m' = "run e (replicate 128 []) m"
  let ?M = "Update e (?m'\<lparr>FreqMeasure := FreqMeasure ?m' @ [r]\<rparr>)"
  have rg1: "DAC_VOLT_0_BASELINE \<le> autotuner_step_' (chan m)"
    using assms(2) by (simp add: step_defs word_le_nat_alt)
  note rg = rg1 assms(3)
  note c = cycle_to_emit(1)[OF assms(1) rg, where e = e and r = r]
    cycle_to_emit(2)[OF assms(1) rg, where e = e]
    cycle_to_emit(3)[OF assms(1) rg, where e = e]
    cycle_to_emit(4)[OF assms(1) rg, where e = e and r = r]
  from assms(1) have b: "autotuner_' (chan m)" "auto_freq_sum_' (chan m) = 0"
    "auto_freq_count_' (chan m) = 0" "F_correction_factor_' (chan m) \<noteq> 1"
    by (simp_all add: between_emits_def)
  have pre: "autotuner_' (chan ?m')" "DAC_VOLT_0_BASELINE \<le> autotuner_step_' (chan ?m')"
    "ticks_since_last_freq_' (chan ?m') = 128" "auto_freq_sum_' (chan ?m') = 0"
    "auto_freq_count_' (chan ?m') = 0" "F_correction_factor_' (chan ?m') \<noteq> 1"
    "DAC_VOLT_3m \<le> autotuner_step_' (chan ?m')" "autotuner_step_' (chan ?m') \<le> DAC_VOLT_6"
    using b rg assms(2,3) by (simp_all add: c(2))
  note et = emit_tick(1)[OF pre(1,2) c(3) pre(3-6), where e = e and r = r]
    emit_tick(2)[OF pre(1,2) c(3) pre(3-6), where e = e and r = r]
    emit_tick(3)[OF pre(1,2) c(3) pre(3-6), where e = e and r = r]
  from et(1) have af: "auto_frequency e ?M = (True, snd (auto_frequency e ?M))"
    by (cases "auto_frequency e ?M") (simp add: emit_at_def)
  have n: "\<not> MAX_NUM_PASSES < auto_num_passes_' (chan (snd (auto_frequency e ?M)))"
    using assms(4) by (simp add: et(2) c(2) passes_le_MAX)
  have t: "run e (cycle r) m =
      (snd (auto_frequency e ?M))\<lparr>chan := correct_frequency (chan (snd (auto_frequency e ?M)))\<rparr>"
    unfolding c(1) tick_VOLT[OF pre(1,7,8)] by (rule measure_VOLT_correct[OF af n])
  show "chan (run e (cycle r) m) =
      correct_frequency
        ((chan m)\<lparr>ticks_since_last_freq_' := 0, auto_freq_sum_' := 0, auto_freq_count_' := 0,
                  auto_frequency_' := countToFrequency e r,
                  history_' := history_Push (countToFrequency e r) (history_' (chan m)),
                  auto_ready_' := True\<rparr>)"
    unfolding t by (simp add: et(2) c(2))
  show "FreqMeasure (run e (cycle r) m) = []"
    unfolding t by (simp add: et(3))
  show "emits e (cycle r) m = 1"
    using c(4) et(1) by simp
qed

lemma correct_frequency_down:
  assumes "step_target c < auto_frequency_' c" "\<not> correction_direction_' c"
    "F_correction_factor_' c \<noteq> 1" "correction_cnt_positive_' c = 0"
  shows "correct_frequency c =
     c\<lparr>auto_num_passes_' := auto_num_passes_' c + 1,
       correction_direction_' := False,
       auto_DAC_offset_error_' := auto_DAC_offset_error_' c - ucast (F_correction_factor_' c)\<rparr>"
  using assms
  by (simp add: correct_frequency_def step_target_def Let_def CONVERGE_PASSES_def
      word_sless_alt)

lemma volt_down_cycles:
  assumes "between_emits m" "DAC_VOLT_3m \<le> autotuner_step_' (chan m)"
    "autotuner_step_' (chan m) \<le> DAC_VOLT_6"
    "step_target (chan m) < countToFrequency e r" "\<not> correction_direction_' (chan m)"
    "correction_cnt_positive_' (chan m) = 0"
    "unat (auto_num_passes_' (chan m)) + k \<le> 1500"
  shows "chan (run e (cycles (Suc k) r) m) =
      (chan m)\<lparr>ticks_since_last_freq_' := 0, auto_freq_sum_' := 0, auto_freq_count_' := 0,
               auto_frequency_' := countToFrequency e r,
               history_' := (history_Push (countToFrequency e r) ^^ Suc k) (history_' (chan m)),
               auto_ready_' := True,
               auto_num_passes_' := auto_num_passes_' (chan m) + word_of_nat (Suc k),
               correction_direction_' := False,
               auto_DAC_offset_error_' :=
                 auto_DAC_offset_error_' (chan m)
                   - word_of_nat (Suc k) * ucast (F_correction_factor_' (chan m))\<rparr>
       \<and> FreqMeasure (run e (cycles (Suc k) r) m) = []
       \<and> emits e (cycles (Suc k) r) m = Suc k"
  using assms(7)
proof (induction k)
  case 0
  then have p: "unat (auto_num_passes_' (chan m)) \<le> 1500" by simp
  from assms(1) have F: "F_correction_factor_' (chan m) \<noteq> 1" by (simp add: between_emits_def)
  note vc = volt_cycle[OF assms(1-3) p, of e r]
  have "chan (run e (cycle r) m) =
      (chan m)\<lparr>ticks_since_last_freq_' := 0, auto_freq_sum_' := 0, auto_freq_count_' := 0,
               auto_frequency_' := countToFrequency e r,
               history_' := history_Push (countToFrequency e r) (history_' (chan m)),
               auto_ready_' := True,
               auto_num_passes_' := auto_num_passes_' (chan m) + 1,
               correction_direction_' := False,
               auto_DAC_offset_error_' :=
                 auto_DAC_offset_error_' (chan m) - ucast (F_correction_factor_' (chan m))\<rparr>"
    unfolding vc(1) using assms(4,5,6) F
    by (subst correct_frequency_down) (simp_all add: step_target_def)
  with vc(2,3) show ?case by (simp add: cycles_def)
next
  case (Suc k)
  let ?m' = "run e (cycles (Suc k) r) m"
  from Suc have ih: "chan ?m' =
      (chan m)\<lparr>ticks_since_last_freq_' := 0, auto_freq_sum_' := 0, auto_freq_count_' := 0,
               auto_frequency_' := countToFrequency e r,
               history_' := (history_Push (countToFrequency e r) ^^ Suc k) (history_' (chan m)),
               auto_ready_' := True,
               auto_num_passes_' := auto_num_passes_' (chan m) + word_of_nat (Suc k),
               correction_direction_' := False,
               auto_DAC_offset_error_' :=
                 auto_DAC_offset_error_' (chan m)
                   - word_of_nat (Suc k) * ucast (F_correction_factor_' (chan m))\<rparr>"
    "FreqMeasure ?m' = []" "emits e (cycles (Suc k) r) m = Suc k"
    by simp_all
  from assms(1) have b: "between_emits ?m'"
    by (simp add: between_emits_def ih)
  from assms(1) have F: "F_correction_factor_' (chan m) \<noteq> 1" by (simp add: between_emits_def)
  have st: "DAC_VOLT_3m \<le> autotuner_step_' (chan ?m')" "autotuner_step_' (chan ?m') \<le> DAC_VOLT_6"
    using assms(2,3) by (simp_all add: ih)
  from Suc.prems have "unat (auto_num_passes_' (chan m) + word_of_nat (Suc k))
      = unat (auto_num_passes_' (chan m)) + Suc k"
    by (simp add: unat_word_ariths unat_of_nat)
  with Suc.prems have p: "unat (auto_num_passes_' (chan ?m')) \<le> 1500"
    by (simp add: ih)
  note vc = volt_cycle[OF b st p, of e r]
  have r: "run e (cycles (Suc (Suc k)) r) m = run e (cycle r) ?m'"
    by (simp only: cycles_Suc[of "Suc k"] run_append)
  have em: "emits e (cycles (Suc (Suc k)) r) m = Suc (Suc k)"
    by (simp only: cycles_Suc[of "Suc k"] emits_append ih(3) vc(3))
  have "chan (run e (cycle r) ?m') =
      (chan m)\<lparr>ticks_since_last_freq_' := 0, auto_freq_sum_' := 0, auto_freq_count_' := 0,
               auto_frequency_' := countToFrequency e r,
               history_' := (history_Push (countToFrequency e r) ^^ Suc (Suc k)) (history_' (chan m)),
               auto_ready_' := True,
               auto_num_passes_' := auto_num_passes_' (chan m) + word_of_nat (Suc (Suc k)),
               correction_direction_' := False,
               auto_DAC_offset_error_' :=
                 auto_DAC_offset_error_' (chan m)
                   - word_of_nat (Suc (Suc k)) * ucast (F_correction_factor_' (chan m))\<rparr>"
    unfolding vc(1) using assms(4,5,6) F
    by (subst correct_frequency_down) (simp_all add: step_target_def ih(1) algebra_simps)
  with vc(2) em show ?case unfolding r by simp
qed


subsection \<open>A VCO that stays at 100 Hz\<close>

lemma c2f_100: "countToFrequency env0 600000 = 100"
  by (simp add: env0_def)

lemma started_chan:
  "chan started = (chan boot)\<lparr>autotuner_' := True, autotuner_step_' := DAC_VOLT_0_BASELINE\<rparr>"
  "FreqMeasure started = []"
  by (simp_all add: started_def armed_def autotuner_run_def autotuner_arm_def reset_autotuner_def
      reset_calibration_data_def boot_chan boot_rest Let_def OCTAVES_def upt_11 step_defs)

lemma started_facts:
  "between_emits started" "autotuner_' (chan started)"
  "autotuner_step_' (chan started) = DAC_VOLT_0_BASELINE"
  "auto_num_passes_' (chan started) = 0"
  "auto_target_frequencies_' (chan started) = [0, 0, 0, 0, 0, 0, 0, 0, 0, 0, 0]"
  "history_' (chan started) = [0, 0, 0, 0, 0, 0, 0, 0, 0, 0]"
  by (simp_all add: between_emits_def started_chan boot_chan)

lemma history_100:
  "(history_Push 100 ^^ 10) [0, 0, 0, 0, 0, 0, 0, 0, 0, 0]
     = [100, 100, 100, 100, 100, 100, 100, 100, 100, 100]"
  "history_Push 100 [100, 100, 100, 100, 100, 100, 100, 100, 100, 100]
     = [100, 100, 100, 100, 100, 100, 100, 100, 100, 100]"
  "history_sum [100, 100, 100, 100, 100, 100, 100, 100, 100, 100] = 1000"
  by (simp_all add: eval_nat_numeral history_Push_def history_sum_def kHistoryDepth_def upt_10)

lemma after_10:
  "chan (run env0 (cycles 10 600000) started) =
      (chan started)\<lparr>auto_frequency_' := 100,
               history_' := [100, 100, 100, 100, 100, 100, 100, 100, 100, 100],
               auto_ready_' := True, auto_num_passes_' := 10\<rparr>"
  "FreqMeasure (run env0 (cycles 10 600000) started) = []"
  "emits env0 (cycles 10 600000) started = 10"
proof -
  have k: "(10 :: nat) = Suc 9" by simp
  have "unat (auto_num_passes_' (chan started)) + 9 \<le> 10" by (simp add: started_facts)
  from baseline_cycles[OF started_facts(1,3) this, of env0 600000, folded k]
  show "chan (run env0 (cycles 10 600000) started) =
      (chan started)\<lparr>auto_frequency_' := 100,
               history_' := [100, 100, 100, 100, 100, 100, 100, 100, 100, 100],
               auto_ready_' := True, auto_num_passes_' := 10\<rparr>"
    "FreqMeasure (run env0 (cycles 10 600000) started) = []"
    "emits env0 (cycles 10 600000) started = 10"
    by (simp_all add: c2f_100 history_100 started_chan boot_chan)
qed


lemma after_11:
  "chan (run env0 (cycles 11 600000) started) =
      (chan started)\<lparr>auto_frequency_' := 100,
               history_' := [100, 100, 100, 100, 100, 100, 100, 100, 100, 100],
               auto_ready_' := True, auto_num_passes_' := 11\<rparr>"
  "FreqMeasure (run env0 (cycles 11 600000) started) = []"
  "emits env0 (cycles 11 600000) started = 11"
proof -
  let ?m = "run env0 (cycles 10 600000) started"
  have k: "(11 :: nat) = Suc 10" by simp
  have r: "run env0 (cycles 11 600000) started = run env0 (cycle 600000) ?m"
    unfolding k by (simp only: cycles_Suc run_append)
  have b: "between_emits ?m" "autotuner_step_' (chan ?m) = DAC_VOLT_0_BASELINE"
    "unat (auto_num_passes_' (chan ?m)) \<le> 10"
    by (simp_all add: between_emits_def after_10 started_chan boot_chan)
  note bc = baseline_cycle[OF b, of env0 600000]
  show "chan (run env0 (cycles 11 600000) started) =
      (chan started)\<lparr>auto_frequency_' := 100,
               history_' := [100, 100, 100, 100, 100, 100, 100, 100, 100, 100],
               auto_ready_' := True, auto_num_passes_' := 11\<rparr>"
    unfolding r bc(1) by (simp add: after_10 c2f_100 history_100 started_chan boot_chan)
  show "FreqMeasure (run env0 (cycles 11 600000) started) = []"
    unfolding r by (rule bc(2))
  show "emits env0 (cycles 11 600000) started = 11"
    unfolding k by (simp only: cycles_Suc emits_append after_10(3) bc(3))
qed

lemma after_12:
  "chan (run env0 (cycles 12 600000) started) =
      (chan started)\<lparr>auto_frequency_' := 100,
               history_' := [100, 100, 100, 100, 100, 100, 100, 100, 100, 100],
               auto_last_frequency_' := 100,
               auto_target_frequencies_' :=
                 [12.5, 25, 50, 100, 200, 400, 800, 1600, 3200, 6400, 12800],
               autotuner_step_' := DAC_VOLT_3m\<rparr>"
  "FreqMeasure (run env0 (cycles 12 600000) started) = []"
  "emits env0 (cycles 12 600000) started = 12"
proof -
  let ?m = "run env0 (cycles 11 600000) started"
  have k: "(12 :: nat) = Suc 11" by simp
  have r: "run env0 (cycles 12 600000) started = run env0 (cycle 600000) ?m"
    unfolding k by (simp only: cycles_Suc run_append)
  have b: "between_emits ?m" "autotuner_step_' (chan ?m) = DAC_VOLT_0_BASELINE"
    "10 < unat (auto_num_passes_' (chan ?m))"
    by (simp_all add: between_emits_def after_11 started_chan boot_chan)
  note bc = baseline_last_cycle[OF b, of env0 600000]
  show "chan (run env0 (cycles 12 600000) started) =
      (chan started)\<lparr>auto_frequency_' := 100,
               history_' := [100, 100, 100, 100, 100, 100, 100, 100, 100, 100],
               auto_last_frequency_' := 100,
               auto_target_frequencies_' :=
                 [12.5, 25, 50, 100, 200, 400, 800, 1600, 3200, 6400, 12800],
               autotuner_step_' := DAC_VOLT_3m\<rparr>"
    unfolding r bc(1)
    by (simp add: after_11 c2f_100 history_100 started_chan boot_chan auto_reset_step_def
        target_table_def)
  show "FreqMeasure (run env0 (cycles 12 600000) started) = []"
    unfolding r by (rule bc(2))
  show "emits env0 (cycles 12 600000) started = 12"
    unfolding k by (simp only: cycles_Suc emits_append after_11(3) bc(3))
qed

text \<open>
  C4. For the baseline frequency 100 Hz and 1 V/oct scaling (\<open>case 0\<close>), the table
  built is 12.5, 25, 50, 100, 200, 400, 800, 1600, 3200, 6400, 12800; and it is the table
  that the channel holds when the baseline step has ended on a VCO at 100 Hz. Every
  factor of this branch is a power of two and every product is a small dyadic number, so
  the single-precision products of the source are these values exactly.
\<close>

theorem target_table_100:
  "target_table 0 100 = [12.5, 25, 50, 100, 200, 400, 800, 1600, 3200, 6400, 12800]
   \<and> auto_target_frequencies_' (chan (run env0 (cycles 12 600000) started)) = target_table 0 100"
  by (simp add: target_table_def after_12(1))

lemma after_12_facts:
  "between_emits (run env0 (cycles 12 600000) started)"
  "DAC_VOLT_3m \<le> autotuner_step_' (chan (run env0 (cycles 12 600000) started))"
  "autotuner_step_' (chan (run env0 (cycles 12 600000) started)) \<le> DAC_VOLT_6"
  "step_target (chan (run env0 (cycles 12 600000) started)) < countToFrequency env0 600000"
  "\<not> correction_direction_' (chan (run env0 (cycles 12 600000) started))"
  "correction_cnt_positive_' (chan (run env0 (cycles 12 600000) started)) = 0"
  "auto_num_passes_' (chan (run env0 (cycles 12 600000) started)) = 0"
  "auto_DAC_offset_error_' (chan (run env0 (cycles 12 600000) started)) = 0"
  "F_correction_factor_' (chan (run env0 (cycles 12 600000) started)) = 0xFF"
  by (simp_all add: between_emits_def after_12 started_chan boot_chan step_target_def c2f_100
      step_defs)

lemma stuck_at_100:
  assumes "k \<le> 1500"
  shows "autotuner_step_' (chan (run env0 (cycles (12 + Suc k) 600000) started)) = DAC_VOLT_3m"
    and "auto_DAC_offset_error_' (chan (run env0 (cycles (12 + Suc k) 600000) started))
          = - (word_of_nat (Suc k) * 255)"
proof -
  let ?m = "run env0 (cycles 12 600000) started"
  have r: "run env0 (cycles (12 + Suc k) 600000) started = run env0 (cycles (Suc k) 600000) ?m"
    by (simp only: cycles_add run_append)
  from assms have p: "unat (auto_num_passes_' (chan ?m)) + k \<le> 1500"
    by (simp add: after_12_facts)
  note v = volt_down_cycles[OF after_12_facts(1-6) p]
  show "autotuner_step_' (chan (run env0 (cycles (12 + Suc k) 600000) started)) = DAC_VOLT_3m"
    unfolding r by (simp add: v after_12(1))
  show "auto_DAC_offset_error_' (chan (run env0 (cycles (12 + Suc k) 600000) started))
          = - (word_of_nat (Suc k) * 255)"
    unfolding r by (simp add: v after_12_facts)
qed

text \<open>
  C1 as stated fails: two emits after \<open>DAC_VOLT_3m\<close> is entered, with the VCO at 100 Hz
  above the target of 12.5 Hz, the correction is \<open>-510\<close>. It keeps falling by 255 per
  emit; \<open>offset_bound_attained\<close> below shows it at \<open>-382755\<close> after 1501 emits.
\<close>

theorem offset_exceeds_509_counterexample:
  "autotuner_step_' (chan (run env0 (cycles 14 600000) started)) = DAC_VOLT_3m
   \<and> sint (auto_DAC_offset_error_' (chan (run env0 (cycles 14 600000) started))) = - 510
   \<and> \<not> \<bar>sint (auto_DAC_offset_error_' (chan (run env0 (cycles 14 600000) started)))\<bar> \<le> 509"
proof -
  have k: "(14 :: nat) = 12 + Suc 1" by simp
  have "(1 :: nat) \<le> 1500" by simp
  from stuck_at_100[OF this] show ?thesis
    unfolding k by simp
qed

lemma offset_bound_attained:
  "autotuner_step_' (chan (run env0 (cycles 1513 600000) started)) = DAC_VOLT_3m
   \<and> sint (auto_DAC_offset_error_' (chan (run env0 (cycles 1513 600000) started))) = - 382755"
proof -
  have k: "(1513 :: nat) = 12 + Suc 1500" by simp
  have "(1500 :: nat) \<le> 1500" by simp
  from stuck_at_100[OF this] show ?thesis
    unfolding k by simp
qed



lemma cycle_emit_at:
  assumes "between_emits m" "DAC_VOLT_0_BASELINE \<le> autotuner_step_' (chan m)"
    "autotuner_step_' (chan m) \<le> DAC_VOLT_6"
  shows "emit_at e [r] (run e (replicate 128 []) m)"
    and "emits e (replicate 128 []) m = 0"
proof -
  let ?m' = "run e (replicate 128 []) m"
  note c = cycle_to_emit(2)[OF assms, where e = e] cycle_to_emit(3)[OF assms, where e = e]
  from assms(1) have b: "autotuner_' (chan m)" "auto_freq_sum_' (chan m) = 0"
    "auto_freq_count_' (chan m) = 0" "F_correction_factor_' (chan m) \<noteq> 1"
    "FreqMeasure m = []" "ticks_since_last_freq_' (chan m) = 0"
    by (simp_all add: between_emits_def)
  have pre: "autotuner_' (chan ?m')" "DAC_VOLT_0_BASELINE \<le> autotuner_step_' (chan ?m')"
    "ticks_since_last_freq_' (chan ?m') = 128" "auto_freq_sum_' (chan ?m') = 0"
    "auto_freq_count_' (chan ?m') = 0" "F_correction_factor_' (chan ?m') \<noteq> 1"
    using b assms(2) by (simp_all add: c(1))
  show "emit_at e [r] ?m'"
    by (rule emit_tick(1)[OF pre(1,2) c(2) pre(3-6)])
  have "unat (ticks_since_last_freq_' (chan m)) + 128 \<le> 8192" using b(6) by simp
  from run_quiet[OF b(1) assms(2,3) b(5) this, of e]
  show "emits e (replicate 128 []) m = 0" by simp
qed



subsection \<open>The non-tracking VCO, step by step\<close>

lemma volt_advance_cycle:
  assumes "between_emits m" "DAC_VOLT_3m \<le> autotuner_step_' (chan m)"
    "autotuner_step_' (chan m) \<le> DAC_VOLT_6"
    "1500 < unat (auto_num_passes_' (chan m))"
  shows "chan (run e (cycle r) m) =
      store_and_advance
        ((chan m)\<lparr>ticks_since_last_freq_' := 0, auto_freq_sum_' := 0, auto_freq_count_' := 0,
                  auto_frequency_' := countToFrequency e r,
                  history_' := history_Push (countToFrequency e r) (history_' (chan m)),
                  auto_ready_' := True\<rparr>)"
    and "FreqMeasure (run e (cycle r) m) = []"
    and "emits e (cycle r) m = 1"
proof -
  let ?m' = "run e (replicate 128 []) m"
  let ?M = "Update e (?m'\<lparr>FreqMeasure := FreqMeasure ?m' @ [r]\<rparr>)"
  have rg1: "DAC_VOLT_0_BASELINE \<le> autotuner_step_' (chan m)"
    using assms(2) by (simp add: step_defs word_le_nat_alt)
  note rg = rg1 assms(3)
  note c = cycle_to_emit(1)[OF assms(1) rg, where e = e and r = r]
    cycle_to_emit(2)[OF assms(1) rg, where e = e]
    cycle_to_emit(3)[OF assms(1) rg, where e = e]
    cycle_to_emit(4)[OF assms(1) rg, where e = e and r = r]
  from assms(1) have b: "autotuner_' (chan m)" "auto_freq_sum_' (chan m) = 0"
    "auto_freq_count_' (chan m) = 0" "F_correction_factor_' (chan m) \<noteq> 1"
    by (simp_all add: between_emits_def)
  have pre: "autotuner_' (chan ?m')" "DAC_VOLT_0_BASELINE \<le> autotuner_step_' (chan ?m')"
    "ticks_since_last_freq_' (chan ?m') = 128" "auto_freq_sum_' (chan ?m') = 0"
    "auto_freq_count_' (chan ?m') = 0" "F_correction_factor_' (chan ?m') \<noteq> 1"
    "DAC_VOLT_3m \<le> autotuner_step_' (chan ?m')" "autotuner_step_' (chan ?m') \<le> DAC_VOLT_6"
    using b rg assms(2,3) by (simp_all add: c(2))
  note et = emit_tick(1)[OF pre(1,2) c(3) pre(3-6), where e = e and r = r]
    emit_tick(2)[OF pre(1,2) c(3) pre(3-6), where e = e and r = r]
    emit_tick(3)[OF pre(1,2) c(3) pre(3-6), where e = e and r = r]
  from et(1) have af: "auto_frequency e ?M = (True, snd (auto_frequency e ?M))"
    by (cases "auto_frequency e ?M") (simp add: emit_at_def)
  have n: "MAX_NUM_PASSES < auto_num_passes_' (chan (snd (auto_frequency e ?M)))"
    using assms(4) by (simp add: et(2) c(2) MAX_NUM_PASSES_def word_less_nat_alt)
  have t: "run e (cycle r) m =
      (snd (auto_frequency e ?M))\<lparr>chan := store_and_advance (chan (snd (auto_frequency e ?M)))\<rparr>"
    unfolding c(1) tick_VOLT[OF pre(1,7,8)] by (rule measure_VOLT_advance[OF af n])
  show "chan (run e (cycle r) m) =
      store_and_advance
        ((chan m)\<lparr>ticks_since_last_freq_' := 0, auto_freq_sum_' := 0, auto_freq_count_' := 0,
                  auto_frequency_' := countToFrequency e r,
                  history_' := history_Push (countToFrequency e r) (history_' (chan m)),
                  auto_ready_' := True\<rparr>)"
    unfolding t by (simp add: et(2) c(2))
  show "FreqMeasure (run e (cycle r) m) = []"
    unfolding t by (simp add: et(3))
  show "emits e (cycle r) m = 1"
    using c(4) et(1) by simp
qed

lemma correction_cut_to_16_bits: "(4294584541 :: 16 word) = 10461"
  by simp

lemma history_100_pow:
  "(history_Push 100 ^^ n) [100, 100, 100, 100, 100, 100, 100, 100, 100, 100]
     = [100, 100, 100, 100, 100, 100, 100, 100, 100, 100]"
  by (induction n) (simp_all add: history_100(2))

text \<open>
  One whole voltage step of the VCO that stays at 100 Hz, for the steps \<open>DAC_VOLT_3m\<close>
  and \<open>DAC_VOLT_2m\<close>: 1501 cycles of correction downwards, and the cycle that advances.
\<close>

lemma stuck_step_corrections:
  assumes "chan m =
      (chan started)\<lparr>auto_frequency_' := 100,
               history_' := [100, 100, 100, 100, 100, 100, 100, 100, 100, 100],
               auto_last_frequency_' := 100,
               auto_target_frequencies_' :=
                 [12.5, 25, 50, 100, 200, 400, 800, 1600, 3200, 6400, 12800],
               auto_calibration_data_' := d,
               autotuner_step_' := s\<rparr>"
    and "FreqMeasure m = []" and "s = DAC_VOLT_3m \<or> s = DAC_VOLT_2m \<or> s = DAC_VOLT_1m"
  shows "chan (run env0 (cycles 1501 600000) m) =
      (chan m)\<lparr>auto_ready_' := True, auto_num_passes_' := 1501,
               auto_DAC_offset_error_' := - 382755\<rparr>"
    and "FreqMeasure (run env0 (cycles 1501 600000) m) = []"
proof -
  have k: "(1501 :: nat) = Suc 1500" by simp
  have f: "between_emits m" "DAC_VOLT_3m \<le> autotuner_step_' (chan m)"
    "autotuner_step_' (chan m) \<le> DAC_VOLT_6"
    "step_target (chan m) < countToFrequency env0 600000"
    "\<not> correction_direction_' (chan m)" "correction_cnt_positive_' (chan m) = 0"
    "unat (auto_num_passes_' (chan m)) + 1500 \<le> 1500"
    using assms(2,3)
    by (auto simp add: between_emits_def assms(1) started_chan boot_chan step_target_def
        c2f_100 step_defs)
  note v = volt_down_cycles[OF f, folded k]
  show "chan (run env0 (cycles 1501 600000) m) =
      (chan m)\<lparr>auto_ready_' := True, auto_num_passes_' := 1501,
               auto_DAC_offset_error_' := - 382755\<rparr>"
    by (simp add: v c2f_100 history_100_pow assms(1) started_chan boot_chan)
  show "FreqMeasure (run env0 (cycles 1501 600000) m) = []" by (simp add: v)
qed

lemma stuck_step_advance:
  assumes "chan m =
      (chan started)\<lparr>auto_frequency_' := 100,
               history_' := [100, 100, 100, 100, 100, 100, 100, 100, 100, 100],
               auto_last_frequency_' := 100,
               auto_target_frequencies_' :=
                 [12.5, 25, 50, 100, 200, 400, 800, 1600, 3200, 6400, 12800],
               auto_calibration_data_' := d,
               autotuner_step_' := s\<rparr>"
    and "FreqMeasure m = []" and "s = DAC_VOLT_3m \<or> s = DAC_VOLT_2m"
  shows "chan (run env0 (cycles 1502 600000) m) =
      (chan started)\<lparr>auto_frequency_' := 100,
               history_' := [100, 100, 100, 100, 100, 100, 100, 100, 100, 100],
               auto_last_frequency_' := 100,
               auto_target_frequencies_' :=
                 [12.5, 25, 50, 100, 200, 400, 800, 1600, 3200, 6400, 12800],
               auto_calibration_data_' := d[unat s - 2 := 10461],
               autotuner_step_' := s + 1\<rparr>"
    and "FreqMeasure (run env0 (cycles 1502 600000) m) = []"
proof -
  let ?m1 = "run env0 (cycles 1501 600000) m"
  have k: "(1502 :: nat) = Suc 1501" by simp
  from assms(3) have s3: "s = DAC_VOLT_3m \<or> s = DAC_VOLT_2m \<or> s = DAC_VOLT_1m" by blast
  note c = stuck_step_corrections[OF assms(1,2) s3]
  have g: "between_emits ?m1" "DAC_VOLT_3m \<le> autotuner_step_' (chan ?m1)"
    "autotuner_step_' (chan ?m1) \<le> DAC_VOLT_6"
    "1500 < unat (auto_num_passes_' (chan ?m1))"
    using assms(3)
    by (auto simp add: between_emits_def c assms(1) started_chan boot_chan step_defs)
  note a = volt_advance_cycle[OF g, of env0 600000]
  have r: "run env0 (cycles 1502 600000) m = run env0 (cycle 600000) ?m1"
    unfolding k by (simp only: cycles_Suc run_append)
  show "chan (run env0 (cycles 1502 600000) m) =
      (chan started)\<lparr>auto_frequency_' := 100,
               history_' := [100, 100, 100, 100, 100, 100, 100, 100, 100, 100],
               auto_last_frequency_' := 100,
               auto_target_frequencies_' :=
                 [12.5, 25, 50, 100, 200, 400, 800, 1600, 3200, 6400, 12800],
               auto_calibration_data_' := d[unat s - 2 := 10461],
               autotuner_step_' := s + 1\<rparr>"
    unfolding r a(1) using assms(3)
    by (auto simp add: c assms(1) started_chan boot_chan c2f_100 history_100 store_and_advance_def
        auto_reset_step_def history_Read_def Let_def kHistoryDepth_def step_defs
        correction_cut_to_16_bits)
  show "FreqMeasure (run env0 (cycles 1502 600000) m) = []"
    unfolding r by (rule a(2))
qed

text \<open>
  The machines \<open>stuck_2m\<close> and \<open>stuck_1m\<close> are reached: they have the channel and the
  meter queue on which the ISR calls \<open>measure_frequency_and_calc_error\<close> in the tick
  that ends the step, when the VCO has stayed at 100 Hz since the run command.
\<close>

lemma before_measure:
  assumes "chan m =
      (chan started)\<lparr>auto_frequency_' := 100,
               history_' := [100, 100, 100, 100, 100, 100, 100, 100, 100, 100],
               auto_last_frequency_' := 100,
               auto_target_frequencies_' :=
                 [12.5, 25, 50, 100, 200, 400, 800, 1600, 3200, 6400, 12800],
               auto_calibration_data_' := d,
               autotuner_step_' := s\<rparr>"
    and "FreqMeasure m = []" and "s = DAC_VOLT_3m \<or> s = DAC_VOLT_2m \<or> s = DAC_VOLT_1m"
  shows "chan (Update env0
           ((run env0 (cycles 1501 600000 @ replicate 128 []) m)
              \<lparr>FreqMeasure :=
                 FreqMeasure (run env0 (cycles 1501 600000 @ replicate 128 []) m) @ [600000]\<rparr>))
         = chan (stuck s d)"
    and "FreqMeasure (Update env0
           ((run env0 (cycles 1501 600000 @ replicate 128 []) m)
              \<lparr>FreqMeasure :=
                 FreqMeasure (run env0 (cycles 1501 600000 @ replicate 128 []) m) @ [600000]\<rparr>))
         = FreqMeasure (stuck s d)"
proof -
  let ?m1 = "run env0 (cycles 1501 600000) m"
  let ?m2 = "run env0 (cycles 1501 600000 @ replicate 128 []) m"
  note c = stuck_step_corrections[OF assms]
  have g: "between_emits ?m1" "DAC_VOLT_0_BASELINE \<le> autotuner_step_' (chan ?m1)"
    "autotuner_step_' (chan ?m1) \<le> DAC_VOLT_6"
    using assms(3)
    by (auto simp add: between_emits_def c assms(1) started_chan boot_chan step_defs)
  have m2: "chan ?m2 = (chan ?m1)\<lparr>ticks_since_last_freq_' := 128\<rparr>" "FreqMeasure ?m2 = []"
    by (simp_all only: run_append cycle_to_emit(2,3)[OF g])
  have na: "autotuner_' (chan (?m2\<lparr>FreqMeasure := FreqMeasure ?m2 @ [600000]\<rparr>))"
    "autotuner_step_' (chan (?m2\<lparr>FreqMeasure := FreqMeasure ?m2 @ [600000]\<rparr>)) \<noteq> DAC_VOLT_0_ARM"
    using assms(3) by (auto simp add: m2 c assms(1) started_chan boot_chan step_defs)
  show "chan (Update env0 (?m2\<lparr>FreqMeasure := FreqMeasure ?m2 @ [600000]\<rparr>)) = chan (stuck s d)"
    unfolding Update_active(1)[OF na]
    by (simp add: m2 c assms(1) started_chan boot_chan stuck_def target_table_def)
  show "FreqMeasure (Update env0 (?m2\<lparr>FreqMeasure := FreqMeasure ?m2 @ [600000]\<rparr>))
      = FreqMeasure (stuck s d)"
    unfolding Update_active(2)[OF na] by (simp add: m2 stuck_def)
qed

lemma started_is_12:
  "chan (run env0 (cycles 12 600000) started) =
      (chan started)\<lparr>auto_frequency_' := 100,
               history_' := [100, 100, 100, 100, 100, 100, 100, 100, 100, 100],
               auto_last_frequency_' := 100,
               auto_target_frequencies_' :=
                 [12.5, 25, 50, 100, 200, 400, 800, 1600, 3200, 6400, 12800],
               auto_calibration_data_' := [0, 0, 0, 0, 0, 0, 0, 0, 0, 0, 0],
               autotuner_step_' := DAC_VOLT_3m\<rparr>"
  by (simp add: after_12(1) started_chan boot_chan)

lemma stuck_2m_reached:
  "chan (Update env0
      ((run env0 (cycles 12 600000 @ cycles 1502 600000 @ cycles 1501 600000 @ replicate 128 [])
          started)
        \<lparr>FreqMeasure :=
           FreqMeasure (run env0 (cycles 12 600000 @ cycles 1502 600000 @ cycles 1501 600000
                                   @ replicate 128 []) started) @ [600000]\<rparr>))
    = chan stuck_2m"
  and "FreqMeasure (Update env0
      ((run env0 (cycles 12 600000 @ cycles 1502 600000 @ cycles 1501 600000 @ replicate 128 [])
          started)
        \<lparr>FreqMeasure :=
           FreqMeasure (run env0 (cycles 12 600000 @ cycles 1502 600000 @ cycles 1501 600000
                                   @ replicate 128 []) started) @ [600000]\<rparr>))
    = FreqMeasure stuck_2m"
proof -
  let ?a = "run env0 (cycles 12 600000) started"
  let ?b = "run env0 (cycles 1502 600000) ?a"
  have s: "DAC_VOLT_3m = DAC_VOLT_3m \<or> DAC_VOLT_3m = DAC_VOLT_2m" by simp
  note b = stuck_step_advance[OF started_is_12 after_12(2) s]
  have b1: "chan ?b =
      (chan started)\<lparr>auto_frequency_' := 100,
               history_' := [100, 100, 100, 100, 100, 100, 100, 100, 100, 100],
               auto_last_frequency_' := 100,
               auto_target_frequencies_' :=
                 [12.5, 25, 50, 100, 200, 400, 800, 1600, 3200, 6400, 12800],
               auto_calibration_data_' := [10461, 0, 0, 0, 0, 0, 0, 0, 0, 0, 0],
               autotuner_step_' := DAC_VOLT_2m\<rparr>"
    by (simp add: b(1) step_defs)
  have s2: "DAC_VOLT_2m = DAC_VOLT_3m \<or> DAC_VOLT_2m = DAC_VOLT_2m \<or> DAC_VOLT_2m = DAC_VOLT_1m"
    by simp
  note m = before_measure[OF b1 b(2) s2]
  have r: "run env0 (cycles 12 600000 @ cycles 1502 600000 @ cycles 1501 600000 @ replicate 128 [])
          started = run env0 (cycles 1501 600000 @ replicate 128 []) ?b"
    by (simp only: run_append)
  show "chan (Update env0
      ((run env0 (cycles 12 600000 @ cycles 1502 600000 @ cycles 1501 600000 @ replicate 128 [])
          started)
        \<lparr>FreqMeasure :=
           FreqMeasure (run env0 (cycles 12 600000 @ cycles 1502 600000 @ cycles 1501 600000
                                   @ replicate 128 []) started) @ [600000]\<rparr>))
    = chan stuck_2m"
    unfolding r stuck_2m_def by (rule m(1))
  show "FreqMeasure (Update env0
      ((run env0 (cycles 12 600000 @ cycles 1502 600000 @ cycles 1501 600000 @ replicate 128 [])
          started)
        \<lparr>FreqMeasure :=
           FreqMeasure (run env0 (cycles 12 600000 @ cycles 1502 600000 @ cycles 1501 600000
                                   @ replicate 128 []) started) @ [600000]\<rparr>))
    = FreqMeasure stuck_2m"
    unfolding r stuck_2m_def by (rule m(2))
qed

lemma stuck_1m_reached:
  "chan (Update env0
      ((run env0 (cycles 12 600000 @ cycles 1502 600000 @ cycles 1502 600000
                   @ cycles 1501 600000 @ replicate 128 []) started)
        \<lparr>FreqMeasure :=
           FreqMeasure (run env0 (cycles 12 600000 @ cycles 1502 600000 @ cycles 1502 600000
                                   @ cycles 1501 600000 @ replicate 128 []) started)
             @ [600000]\<rparr>))
    = chan stuck_1m"
  and "FreqMeasure (Update env0
      ((run env0 (cycles 12 600000 @ cycles 1502 600000 @ cycles 1502 600000
                   @ cycles 1501 600000 @ replicate 128 []) started)
        \<lparr>FreqMeasure :=
           FreqMeasure (run env0 (cycles 12 600000 @ cycles 1502 600000 @ cycles 1502 600000
                                   @ cycles 1501 600000 @ replicate 128 []) started)
             @ [600000]\<rparr>))
    = FreqMeasure stuck_1m"
proof -
  let ?a = "run env0 (cycles 12 600000) started"
  let ?b = "run env0 (cycles 1502 600000) ?a"
  let ?c = "run env0 (cycles 1502 600000) ?b"
  have s: "DAC_VOLT_3m = DAC_VOLT_3m \<or> DAC_VOLT_3m = DAC_VOLT_2m" by simp
  note b = stuck_step_advance[OF started_is_12 after_12(2) s]
  have b1: "chan ?b =
      (chan started)\<lparr>auto_frequency_' := 100,
               history_' := [100, 100, 100, 100, 100, 100, 100, 100, 100, 100],
               auto_last_frequency_' := 100,
               auto_target_frequencies_' :=
                 [12.5, 25, 50, 100, 200, 400, 800, 1600, 3200, 6400, 12800],
               auto_calibration_data_' := [10461, 0, 0, 0, 0, 0, 0, 0, 0, 0, 0],
               autotuner_step_' := DAC_VOLT_2m\<rparr>"
    by (simp add: b(1) step_defs)
  have s2: "DAC_VOLT_2m = DAC_VOLT_3m \<or> DAC_VOLT_2m = DAC_VOLT_2m" by simp
  note c = stuck_step_advance[OF b1 b(2) s2]
  have c1: "chan ?c =
      (chan started)\<lparr>auto_frequency_' := 100,
               history_' := [100, 100, 100, 100, 100, 100, 100, 100, 100, 100],
               auto_last_frequency_' := 100,
               auto_target_frequencies_' :=
                 [12.5, 25, 50, 100, 200, 400, 800, 1600, 3200, 6400, 12800],
               auto_calibration_data_' := [10461, 10461, 0, 0, 0, 0, 0, 0, 0, 0, 0],
               autotuner_step_' := DAC_VOLT_1m\<rparr>"
    by (simp add: c(1) step_defs)
  have s3: "DAC_VOLT_1m = DAC_VOLT_3m \<or> DAC_VOLT_1m = DAC_VOLT_2m \<or> DAC_VOLT_1m = DAC_VOLT_1m"
    by simp
  note m = before_measure[OF c1 c(2) s3]
  have r: "run env0 (cycles 12 600000 @ cycles 1502 600000 @ cycles 1502 600000
                   @ cycles 1501 600000 @ replicate 128 []) started
        = run env0 (cycles 1501 600000 @ replicate 128 []) ?c"
    by (simp only: run_append)
  show "chan (Update env0
      ((run env0 (cycles 12 600000 @ cycles 1502 600000 @ cycles 1502 600000
                   @ cycles 1501 600000 @ replicate 128 []) started)
        \<lparr>FreqMeasure :=
           FreqMeasure (run env0 (cycles 12 600000 @ cycles 1502 600000 @ cycles 1502 600000
                                   @ cycles 1501 600000 @ replicate 128 []) started)
             @ [600000]\<rparr>))
    = chan stuck_1m"
    unfolding r stuck_1m_def by (rule m(1))
  show "FreqMeasure (Update env0
      ((run env0 (cycles 12 600000 @ cycles 1502 600000 @ cycles 1502 600000
                   @ cycles 1501 600000 @ replicate 128 []) started)
        \<lparr>FreqMeasure :=
           FreqMeasure (run env0 (cycles 12 600000 @ cycles 1502 600000 @ cycles 1502 600000
                                   @ cycles 1501 600000 @ replicate 128 []) started)
             @ [600000]\<rparr>))
    = FreqMeasure stuck_1m"
    unfolding r stuck_1m_def by (rule m(2))
qed


end
